theory Spec2Isabelle
  imports Main "HOL-Library.Word"
begin

section \<open>JavaScript strings\<close>

text \<open>
  A JavaScript string is a sequence of 16-bit code units; \<open>indexOf\<close>, \<open>substring\<close>,
  \<open>endsWith\<close>, \<open>trim\<close> and a regular expression without the \<open>u\<close> flag all work on code
  units.  The plain ASCII text of a literal of the script is written with \<open>lit\<close>; a line
  break, a quote, a backtick and every character beyond ASCII is written as its code
  unit(s).
\<close>

type_synonym jschar = "16 word"
type_synonym jsstring = "jschar list"

definition lit :: "string \<Rightarrow> jsstring" where
  "lit s = map of_char s"

text \<open>\<open>s.endsWith(suffix)\<close>\<close>

definition endsWith :: "jsstring \<Rightarrow> jsstring \<Rightarrow> bool" where
  "endsWith s suffix \<longleftrightarrow>
     length suffix \<le> length s \<and> drop (length s - length suffix) s = suffix"

text \<open>\<open>s.indexOf(p)\<close>: the index of the first occurrence of \<open>p\<close>, or \<open>-1\<close>.\<close>

fun indexOfFrom :: "jsstring \<Rightarrow> jsstring \<Rightarrow> nat \<Rightarrow> int" where
  "indexOfFrom [] p i = (if p = [] then int i else - 1)"
| "indexOfFrom (x # s) p i =
     (if take (length p) (x # s) = p then int i else indexOfFrom s p (Suc i))"

definition indexOf :: "jsstring \<Rightarrow> jsstring \<Rightarrow> int" where
  "indexOf s p = indexOfFrom s p 0"

text \<open>\<open>s.substring(start)\<close>: a start below 0 counts as 0, one beyond the end as the end.\<close>

definition substring :: "jsstring \<Rightarrow> int \<Rightarrow> jsstring" where
  "substring s start = drop (nat start) s"

text \<open>
  \<open>s.trim()\<close> removes white space and line terminators from both ends: TAB, VT, FF, SP,
  NBSP, ZWNBSP, the space separators of Unicode, LF, CR, LS and PS.
\<close>

definition isSpace :: "jschar \<Rightarrow> bool" where
  "isSpace c \<longleftrightarrow>
     c \<in> set [0x09, 0x0A, 0x0B, 0x0C, 0x0D, 0x20, 0xA0, 0x1680, 0x2000, 0x2001, 0x2002,
              0x2003, 0x2004, 0x2005, 0x2006, 0x2007, 0x2008, 0x2009, 0x200A, 0x2028,
              0x2029, 0x202F, 0x205F, 0x3000, 0xFEFF]"

definition trim :: "jsstring \<Rightarrow> jsstring" where
  "trim s = rev (dropWhile isSpace (rev (dropWhile isSpace s)))"

text \<open>\<open>xs.join(sep)\<close>\<close>

fun join :: "jsstring list \<Rightarrow> jsstring \<Rightarrow> jsstring" where
  "join [] sep = []"
| "join [x] sep = x"
| "join (x # y # ys) sep = x @ sep @ join (y # ys) sep"

text \<open>
  A value that is a string or \<open>undefined\<close> is a \<open>jsstring option\<close>.  \<open>!v\<close> holds for
  \<open>undefined\<close> and for the empty string; a template literal prints \<open>undefined\<close> by name.
\<close>

definition falsy :: "jsstring option \<Rightarrow> bool" where
  "falsy v = (case v of None \<Rightarrow> True | Some s \<Rightarrow> s = [])"

definition toString :: "jsstring option \<Rightarrow> jsstring" where
  "toString v = (case v of None \<Rightarrow> lit ''undefined'' | Some s \<Rightarrow> s)"


section \<open>Regular expressions\<close>

text \<open>
  The pattern constructs the script uses: a character, \<open>.\<close> under the \<open>s\<close> flag (any code
  unit, line terminators too), sequence, the greedy \<open>*\<close> and the lazy \<open>*?\<close>; \<open>r+\<close> is
  \<open>r\<close> followed by \<open>r*\<close>.

  \<open>ends r s\<close> lists, in the order the backtracking matcher tries them, what is left of
  \<open>s\<close> after each way of matching \<open>r\<close> at its start.  A greedy star tries one more
  iteration before stopping, a lazy star stops before trying one more; an iteration that
  consumes nothing is rejected.
\<close>

datatype regex = Chr jschar | Dot | Cat regex regex | Star regex | Lazy regex

function ends :: "regex \<Rightarrow> jsstring \<Rightarrow> jsstring list" where
  "ends (Chr c) s = (case s of [] \<Rightarrow> [] | x # t \<Rightarrow> if x = c then [t] else [])"
| "ends Dot s = (case s of [] \<Rightarrow> [] | x # t \<Rightarrow> [t])"
| "ends (Cat a b) s = concat (map (ends b) (ends a s))"
| "ends (Star r) s =
     concat (map (ends (Star r)) (filter (\<lambda>t. length t < length s) (ends r s))) @ [s]"
| "ends (Lazy r) s =
     s # concat (map (ends (Lazy r)) (filter (\<lambda>t. length t < length s) (ends r s)))"
  by pat_completeness auto
termination
  by (relation "measures [\<lambda>(r, s). size r, \<lambda>(r, s). length s]") auto

definition Plus :: "regex \<Rightarrow> regex" where
  "Plus r = Cat r (Star r)"

text \<open>
  \<open>s.match(r)\<close> for a pattern without the \<open>g\<close> flag: the first start position, from the
  left, at which the matcher succeeds; the result \<open>match[0]\<close> is what the first way of
  matching there consumed.  \<open>None\<close> is \<open>null\<close>.
\<close>

fun match :: "jsstring \<Rightarrow> regex \<Rightarrow> jsstring option" where
  "match [] r = (case ends r [] of [] \<Rightarrow> None | t # _ \<Rightarrow> Some [])"
| "match (x # s) r =
     (case ends r (x # s) of
        [] \<Rightarrow> match s r
      | t # _ \<Rightarrow> Some (take (length (x # s) - length t) (x # s)))"


section \<open>The file system, the review service and what a run does to them\<close>

text \<open>
  What \<open>fs.statSync\<close> and \<open>fs.readdirSync\<close> find at a path: something that is not a
  directory, a directory with its entries in the order \<open>readdirSync\<close> lists them, a name
  that cannot be resolved (both calls throw the message), or a directory that cannot be
  listed (\<open>isDirectory()\<close> holds, \<open>readdirSync\<close> throws the message).
\<close>

datatype node =
    File
  | Dir "(jsstring \<times> node) list"
  | NoEntry jsstring
  | NoList jsstring

text \<open>An error is the message of the thrown \<open>Error\<close>.\<close>

fun statSync_isDirectory :: "node \<Rightarrow> jsstring + bool" where
  "statSync_isDirectory File = Inr False"
| "statSync_isDirectory (Dir files) = Inr True"
| "statSync_isDirectory (NoEntry e) = Inl e"
| "statSync_isDirectory (NoList e) = Inr True"

text \<open>The calls a run makes to the outside, in order.\<close>

datatype logged = Message jsstring | ErrorObject

datatype event =
    ReaddirSync jsstring
  | StatSync jsstring
  | ReadFileSync jsstring
  | GenerateContent jsstring jsstring
  | ExistsSync jsstring
  | MkdirSync jsstring
  | WriteFileSync jsstring jsstring
  | ConsoleError jsstring logged
  | ProcessExit int

text \<open>
  The surroundings of a run: the environment variable as \<open>process.env\<close> holds it once
  \<open>dotenv\<close> has been loaded, what is at \<open>src\<close>, and the answers of the file system and of the
  review service, each a function of the arguments of the call.  \<open>generateContent\<close> takes the
  model and the prompt and gives the error thrown or \<open>response.text\<close>, which the client
  library leaves \<open>undefined\<close> when the response has no text.  \<open>mkdirSync\<close> and
  \<open>writeFileSync\<close> give the error thrown, if any.
\<close>

record world =
  GEMINI_API_KEY :: "jsstring option"
  src :: node
  readFileSync :: "jsstring \<Rightarrow> jsstring + jsstring"
  generateContent :: "jsstring \<Rightarrow> jsstring \<Rightarrow> jsstring + jsstring option"
  existsSync :: "jsstring \<Rightarrow> bool"
  mkdirSync :: "jsstring \<Rightarrow> jsstring option"
  writeFileSync :: "jsstring \<Rightarrow> jsstring \<Rightarrow> jsstring option"


section \<open>File discovery\<close>

text \<open>
  \<open>path.join(dir, f)\<close> for a directory path without a trailing separator and an entry name
  as \<open>readdirSync\<close> gives it (POSIX).
\<close>

definition path_join :: "jsstring \<Rightarrow> jsstring \<Rightarrow> jsstring" where
  "path_join dir f = dir @ lit ''/'' @ f"

definition ENOTDIR :: "jsstring \<Rightarrow> jsstring" where
  "ENOTDIR dir = lit ''ENOTDIR: not a directory, scandir '' @ [0x27] @ dir @ [0x27]"

text \<open>
  \<open>walk dir nd tr jsFiles\<close>: \<open>nd\<close> is what is at \<open>dir\<close>, \<open>tr\<close> the calls made so far and
  \<open>jsFiles\<close> the array the walk pushes to.  \<open>walk_for\<close> is the loop over the entries.
\<close>

fun walk :: "jsstring \<Rightarrow> node \<Rightarrow> event list \<Rightarrow> jsstring list \<Rightarrow>
    event list \<times> (jsstring + jsstring list)"
  and walk_for :: "jsstring \<Rightarrow> (jsstring \<times> node) list \<Rightarrow> event list \<Rightarrow> jsstring list \<Rightarrow>
    event list \<times> (jsstring + jsstring list)"
where
  "walk dir (Dir files) tr jsFiles = walk_for dir files (tr @ [ReaddirSync dir]) jsFiles"
| "walk dir File tr jsFiles = (tr @ [ReaddirSync dir], Inl (ENOTDIR dir))"
| "walk dir (NoEntry e) tr jsFiles = (tr @ [ReaddirSync dir], Inl e)"
| "walk dir (NoList e) tr jsFiles = (tr @ [ReaddirSync dir], Inl e)"
| "walk_for dir [] tr jsFiles = (tr, Inr jsFiles)"
| "walk_for dir ((f, nd) # files) tr jsFiles =
     (let full = path_join dir f; tr1 = tr @ [StatSync full] in
      case statSync_isDirectory nd of
        Inl e \<Rightarrow> (tr1, Inl e)
      | Inr isDir \<Rightarrow>
          if isDir then
            if f = lit ''node_modules'' \<or> f = lit ''tests'' \<or> f = lit ''reports''
            then walk_for dir files tr1 jsFiles
            else (case walk full nd tr1 jsFiles of
                    (tr2, Inl e) \<Rightarrow> (tr2, Inl e)
                  | (tr2, Inr jsFiles2) \<Rightarrow> walk_for dir files tr2 jsFiles2)
          else if endsWith full (lit ''.js'') then walk_for dir files tr1 (jsFiles @ [full])
          else walk_for dir files tr1 jsFiles)"


section \<open>Reviewing one file\<close>

definition prompt_head :: jsstring where
  "prompt_head =
     [0x0A] @ lit ''Voc'' @ [0xEA] @ lit '' '' @ [0xE9] @ lit '' um revisor de c'' @ [0xF3] @
     lit ''digo que analisa boas pr'' @ [0xE1] @ lit ''ticas, legibilidade, seguran'' @
     [0xE7] @ lit ''a e estrutura do c'' @ [0xF3] @ lit ''digo JavaScript.'' @ [0x0A] @
     lit ''Analise o c'' @ [0xF3] @ lit ''digo abaixo e forne'' @ [0xE7] @ lit ''a coment'' @
     [0xE1] @ lit ''rios:'' @ [0x0A, 0x0A] @ lit ''1.  **Pontos Fortes** e **Sugest'' @
     [0xF5] @ lit ''es de Melhoria** (em texto corrido e bem detalhado).'' @ [0x0A] @
     lit ''2.  **AO FINAL DE SUA REVIS'' @ [0xC3] @
     lit ''O DETALHADA,** crie uma **tabela de resumo** no formato Markdown com duas colunas: **'' @
     [0x22] @ lit ''Problema Principal'' @ [0x22] @ lit ''** e **'' @ [0x22] @
     lit ''Local/Linha Sugerida'' @ [0x22] @ lit ''**. '' @ [0x0A] @ lit ''    * Se n'' @
     [0xE3] @ lit ''o houver problemas graves, a tabela deve ter uma '' @ [0xFA] @
     lit ''nica linha dizendo '' @ [0x22] @ lit ''Nenhum problema grave encontrado'' @ [0x22] @
     lit '' na coluna '' @ [0x22] @ lit ''Problema Principal'' @ [0x22] @ lit ''.'' @
     [0x0A, 0x0A] @ lit ''C'' @ [0xF3] @ lit ''digo:'' @ [0x0A, 0x60, 0x60, 0x60] @
     lit ''js'' @ [0x0A]"

definition prompt_tail :: jsstring where
  "prompt_tail =
     [0x0A, 0x60, 0x60, 0x60, 0x0A] @ lit ''  ''"

definition msg_403 :: jsstring where
  "msg_403 =
     lit ''403 PERMISSION_DENIED: API Key n'' @ [0xE3] @ lit ''o est'' @ [0xE1] @
     lit '' definida. A chave deve ser injetada pelo GitHub Secrets.''"

text \<open>
  \<open>analyzeFile\<close> gives the error thrown or \<open>full_feedback\<close>, that is \<open>response.text\<close>.
\<close>

definition analyzeFile :: "world \<Rightarrow> jsstring \<Rightarrow> event list \<Rightarrow>
    event list \<times> (jsstring + jsstring option)" where
  "analyzeFile w filePath tr =
     (let tr1 = tr @ [ReadFileSync filePath] in
      case readFileSync w filePath of
        Inl e \<Rightarrow> (tr1, Inl e)
      | Inr code \<Rightarrow>
          let prompt = trim (prompt_head @ code @ prompt_tail) in
          if falsy (GEMINI_API_KEY w) then (tr1, Inl msg_403)
          else
            let tr2 = tr1 @ [GenerateContent (lit ''gemini-2.5-flash'') prompt] in
            (case generateContent w (lit ''gemini-2.5-flash'') prompt of
               Inl e \<Rightarrow> (tr2, Inl e)
             | Inr text \<Rightarrow> (tr2, Inr text)))"


section \<open>The report\<close>

definition tableStartMarker :: jsstring where
  "tableStartMarker = lit ''| '' @ lit ''Problema Principal''"

definition tableRow :: regex where
  "tableRow = Cat (Chr 0x7C) (Cat (Lazy Dot) (Chr 0x0A))"

definition tableRegex :: regex where
  "tableRegex = Cat (Plus tableRow) (Cat (Chr 0x7C) (Lazy Dot))"

definition section_head :: "jsstring \<Rightarrow> jsstring" where
  "section_head filePath = lit ''## Arquivo: '' @ filePath @ [0x0A, 0x0A]"

definition success_section :: "jsstring \<Rightarrow> jsstring option \<Rightarrow> jsstring" where
  "success_section filePath full_feedback =
     section_head filePath @ toString full_feedback @ [0x0A, 0x0A]"

definition error_section :: "jsstring \<Rightarrow> jsstring \<Rightarrow> jsstring" where
  "error_section filePath message =
     section_head filePath @ lit ''**Erro ao analisar**: '' @ message @ [0x0A, 0x0A]"

definition resumo_entry :: "jsstring \<Rightarrow> jsstring \<Rightarrow> jsstring" where
  "resumo_entry filePath m0 =
     lit ''### Resumo do Arquivo: '' @ [0x60] @ filePath @ [0x60, 0x0A] @ trim m0 @ [0x0A]"

text \<open>The message of the \<open>TypeError\<close> of \<open>full_feedback.indexOf\<close> on \<open>undefined\<close>.\<close>

definition msg_TypeError :: jsstring where
  "msg_TypeError =
     lit ''Cannot read properties of undefined (reading '' @ [0x27] @ lit ''indexOf'' @ [0x27] @
     lit '')''"

text \<open>
  The summary table the script takes out of a feedback text, if any: the steps between
  \<open>indexOf\<close> and the test of \<open>match[0]\<close>.
\<close>

definition extractTable :: "jsstring \<Rightarrow> jsstring option" where
  "extractTable full_feedback =
     (let tableStart = indexOf full_feedback tableStartMarker in
      if tableStart \<noteq> - 1 then
        let tableContent = substring full_feedback tableStart in
        case match tableContent tableRegex of
          None \<Rightarrow> None
        | Some m0 \<Rightarrow> if m0 \<noteq> [] then Some m0 else None
      else None)"

text \<open>
  The body of the loop over \<open>jsFiles\<close>, with its \<open>try\<close> and \<open>catch\<close>: the state is the calls
  made so far, \<open>report\<close> and \<open>resumoProblemas\<close>.
\<close>

fun review :: "world \<Rightarrow> jsstring \<Rightarrow> event list \<times> jsstring \<times> jsstring list \<Rightarrow>
    event list \<times> jsstring \<times> jsstring list" where
  "review w filePath (tr, report, resumoProblemas) =
     (case analyzeFile w filePath tr of
        (tr1, Inl message) \<Rightarrow> (tr1, report @ error_section filePath message, resumoProblemas)
      | (tr1, Inr full_feedback) \<Rightarrow>
          let report1 = report @ success_section filePath full_feedback in
          (case full_feedback of
             None \<Rightarrow> (tr1, report1 @ error_section filePath msg_TypeError, resumoProblemas)
           | Some text \<Rightarrow>
               (case extractTable text of
                  None \<Rightarrow> (tr1, report1, resumoProblemas)
                | Some m0 \<Rightarrow> (tr1, report1, resumoProblemas @ [resumo_entry filePath m0]))))"

fun review_all :: "world \<Rightarrow> jsstring list \<Rightarrow> event list \<times> jsstring \<times> jsstring list \<Rightarrow>
    event list \<times> jsstring \<times> jsstring list" where
  "review_all w [] st = st"
| "review_all w (filePath # jsFiles) st = review_all w jsFiles (review w filePath st)"

definition report_title :: jsstring where
  "report_title =
     lit ''# Relat'' @ [0xF3] @ lit ''rio de Revis'' @ [0xE3] @ lit ''o AI '' @ [0x2013] @
     lit '' Gemini'' @ [0x0A, 0x0A]"

definition summary_heading :: jsstring where
  "summary_heading =
     lit ''## '' @ [0xD83D, 0xDCCA] @ lit '' Resumo de Problemas por Arquivo'' @ [0x0A, 0x0A]"

definition summary_intro :: jsstring where
  "summary_intro =
     lit ''Este '' @ [0xE9] @ lit '' o resumo de problemas extra'' @ [0xED] @
     lit ''dos automaticamente do feedback detalhado de cada arquivo. Use-o para priorizar corre'' @
     [0xE7, 0xF5] @ lit ''es:'' @ [0x0A, 0x0A]"

definition summary_placeholder :: jsstring where
  "summary_placeholder =
     lit ''Nenhum arquivo JavaScript encontrado para an'' @ [0xE1] @ lit ''lise ou n'' @
     [0xE3] @ lit ''o foi poss'' @ [0xED] @ lit ''vel extrair os resumos das tabelas.'' @
     [0x0A, 0x0A]"

definition summary_rule :: jsstring where
  "summary_rule = [0x0A] @ lit ''---'' @ [0x0A, 0x0A]"

definition tabelaGeral :: "jsstring list \<Rightarrow> jsstring" where
  "tabelaGeral resumoProblemas =
     (if length resumoProblemas > 0
      then summary_heading @ summary_intro @ join resumoProblemas [0x0A]
      else summary_heading @ summary_placeholder)"


section \<open>The run\<close>

definition msg_no_key :: jsstring where
  "msg_no_key =
     lit ''GEMINI_API_KEY n'' @ [0xE3] @ lit ''o encontrada. Abortando an'' @ [0xE1] @
     lit ''lise.''"

definition msg_fatal :: jsstring where
  "msg_fatal =
     lit ''Falha fatal na execu'' @ [0xE7, 0xE3] @ lit ''o do ai_review:''"

definition report_path :: jsstring where
  "report_path = lit ''reports/ai-code-review.md''"

text \<open>
  \<open>main\<close> gives the calls it made and either the error it threw or nothing, when it ran to
  its end.
\<close>

definition main :: "world \<Rightarrow> event list \<times> (jsstring + unit)" where
  "main w =
     (let apiKey = GEMINI_API_KEY w in
      if falsy apiKey then ([], Inl msg_no_key)
      else
        (case walk (lit ''src'') (src w) [] [] of
           (tr, Inl e) \<Rightarrow> (tr, Inl e)
         | (tr, Inr jsFiles) \<Rightarrow>
             let tr1 = tr @ [ExistsSync (lit ''reports'')] in
             (case (if \<not> existsSync w (lit ''reports'')
                    then (tr1 @ [MkdirSync (lit ''reports'')], mkdirSync w (lit ''reports''))
                    else (tr1, None)) of
                (tr2, Some e) \<Rightarrow> (tr2, Inl e)
              | (tr2, None) \<Rightarrow>
                  (case review_all w jsFiles (tr2, report_title, []) of
                     (tr3, report, resumoProblemas) \<Rightarrow>
                       let report1 = report @ summary_rule;
                           report2 = report1 @ tabelaGeral resumoProblemas
                       in (tr3 @ [WriteFileSync report_path report2],
                           case writeFileSync w report_path report2 of
                             Some e \<Rightarrow> Inl e
                           | None \<Rightarrow> Inr ())))))"

text \<open>
  The script: \<open>main().catch(...)\<close>.  It gives every call made and the exit status of the
  process.
\<close>

definition script :: "world \<Rightarrow> event list \<times> int" where
  "script w =
     (case main w of
        (tr, Inl message) \<Rightarrow>
          (tr @ [ConsoleError msg_fatal (if message \<noteq> [] then Message message else ErrorObject),
                 ProcessExit 1], 1)
      | (tr, Inr u) \<Rightarrow> (tr, 0))"


section \<open>Notions the properties are stated with\<close>

text \<open>What a run wrote: the path and the data of each \<open>writeFileSync\<close>, in order.\<close>

fun written :: "event list \<Rightarrow> (jsstring \<times> jsstring) list" where
  "written [] = []"
| "written (WriteFileSync p d # tr) = (p, d) # written tr"
| "written (ev # tr) = written tr"

text \<open>
  What reviewing a sequence of files alone, from nothing, calls, adds to the report and
  adds to the summaries.
\<close>

definition calls :: "world \<Rightarrow> jsstring list \<Rightarrow> event list" where
  "calls w jsFiles = fst (review_all w jsFiles ([], [], []))"

definition sections :: "world \<Rightarrow> jsstring list \<Rightarrow> jsstring" where
  "sections w jsFiles = fst (snd (review_all w jsFiles ([], [], [])))"

definition entries :: "world \<Rightarrow> jsstring list \<Rightarrow> jsstring list" where
  "entries w jsFiles = snd (snd (review_all w jsFiles ([], [], [])))"

text \<open>The report the script builds for a sequence of files.\<close>

definition report_of :: "world \<Rightarrow> jsstring list \<Rightarrow> jsstring" where
  "report_of w jsFiles =
     report_title @ sections w jsFiles @ summary_rule @ tabelaGeral (entries w jsFiles)"

text \<open>The summary table taken from the review of a file, when the review gave a text.\<close>

definition summaryTable :: "world \<Rightarrow> jsstring \<Rightarrow> jsstring option" where
  "summaryTable w filePath =
     (case snd (analyzeFile w filePath []) of
        Inr (Some text) \<Rightarrow> extractTable text
      | _ \<Rightarrow> None)"

text \<open>\<open>p\<close> occurs in \<open>s\<close>.\<close>

definition occurs :: "jsstring \<Rightarrow> jsstring \<Rightarrow> bool" where
  "occurs p s \<longleftrightarrow> (\<exists>before after. s = before @ p @ after)"

subsection \<open>What the table pattern matches\<close>

text \<open>
  The rests of a text after each of its line breaks, in order; the rest of a text from the
  bar of its last line that starts with a bar after a line break, if there is one; a text
  that starts with a bar.
\<close>

fun afters :: "jsstring \<Rightarrow> jsstring list" where
  "afters [] = []"
| "afters (x # t) = (if x = 0x0A then [t] else []) @ afters t"

fun last_row :: "jsstring \<Rightarrow> jsstring option" where
  "last_row [] = None"
| "last_row (x # s) =
     (case last_row s of
        Some u \<Rightarrow> Some u
      | None \<Rightarrow> (case s of [] \<Rightarrow> None | y # v \<Rightarrow> if x = 0x0A \<and> y = 0x7C then Some s else None))"

definition isRow :: "jsstring \<Rightarrow> bool" where
  "isRow u = (case u of [] \<Rightarrow> False | x # v \<Rightarrow> x = 0x7C)"

subsection \<open>Discovery, as the specification words it\<close>

text \<open>
  The excluded directory names; every entry below a directory that is not itself a
  directory, depth first in listing order, as the names of the directories entered on the
  way down and its own name; the path of such an entry; the entries discovery is to
  collect (none of the directories on the way is excluded, the name ends with \<open>.js\<close>).
\<close>

definition excluded :: "jsstring \<Rightarrow> bool" where
  "excluded f \<longleftrightarrow> f = lit ''node_modules'' \<or> f = lit ''tests'' \<or> f = lit ''reports''"

fun entries_below :: "node \<Rightarrow> (jsstring list \<times> jsstring) list"
  and entries_among :: "(jsstring \<times> node) list \<Rightarrow> (jsstring list \<times> jsstring) list"
where
  "entries_below (Dir files) = entries_among files"
| "entries_below File = []"
| "entries_below (NoEntry e) = []"
| "entries_below (NoList e) = []"
| "entries_among [] = []"
| "entries_among ((f, nd) # files) =
     (case nd of
        File \<Rightarrow> [([], f)]
      | _ \<Rightarrow> map (\<lambda>(ds, n). (f # ds, n)) (entries_below nd))
     @ entries_among files"

definition path_of :: "jsstring \<Rightarrow> jsstring list \<times> jsstring \<Rightarrow> jsstring" where
  "path_of dir e = foldl path_join dir (fst e @ [snd e])"

definition wanted :: "jsstring list \<times> jsstring \<Rightarrow> bool" where
  "wanted e \<longleftrightarrow> (\<forall>d \<in> set (fst e). \<not> excluded d) \<and> endsWith (snd e) (lit ''.js'')"

definition discovered :: "jsstring \<Rightarrow> node \<Rightarrow> jsstring list" where
  "discovered dir nd = map (path_of dir) (filter wanted (entries_below nd))"

definition discovered_among :: "jsstring \<Rightarrow> (jsstring \<times> node) list \<Rightarrow> jsstring list" where
  "discovered_among dir files = map (path_of dir) (filter wanted (entries_among files))"

text \<open>
  A tree with every excluded directory emptied, and a tree in which every name resolves
  and every directory can be listed.
\<close>

fun prune :: "node \<Rightarrow> node"
  and prune_entries :: "(jsstring \<times> node) list \<Rightarrow> (jsstring \<times> node) list"
where
  "prune (Dir files) = Dir (prune_entries files)"
| "prune File = File"
| "prune (NoEntry e) = NoEntry e"
| "prune (NoList e) = NoList e"
| "prune_entries [] = []"
| "prune_entries ((f, nd) # files) =
     (f, if statSync_isDirectory nd = Inr True \<and> excluded f then Dir [] else prune nd)
     # prune_entries files"

fun readable :: "node \<Rightarrow> bool"
  and readable_entries :: "(jsstring \<times> node) list \<Rightarrow> bool"
where
  "readable (Dir files) = readable_entries files"
| "readable File = True"
| "readable (NoEntry e) = False"
| "readable (NoList e) = False"
| "readable_entries [] = True"
| "readable_entries ((f, nd) # files) = (readable nd \<and> readable_entries files)"


section \<open>Concrete surroundings\<close>

text \<open>
  A feedback text that ends with a well-formed summary table right after the marker,
  followed by a blank line and a closing sentence.
\<close>

definition feedback_table :: jsstring where
  "feedback_table =
     lit ''Bom.'' @ [0x0A, 0x0A] @
     lit ''| Problema Principal | Local/Linha Sugerida |'' @ [0x0A] @
     lit ''|---|---|'' @ [0x0A] @
     lit ''| Uso de var | linha 3 |'' @ [0x0A, 0x0A] @
     lit ''Fim.''"

text \<open>
  A feedback text whose table has the header \<open>|Problema Principal|Local|\<close>, without the
  space after the bar, and whose first sentence quotes the marker.
\<close>

definition stray_header :: jsstring where
  "stray_header = lit ''|Problema Principal|Local|''"

definition feedback_stray :: jsstring where
  "feedback_stray =
     lit ''Use | Problema Principal.'' @ [0x0A] @
     stray_header @ [0x0A] @
     lit ''|---|---|'' @ [0x0A] @
     lit ''|x|y|'' @ [0x0A]"

text \<open>A feedback text with that table and no marker anywhere.\<close>

definition feedback_unmarked :: jsstring where
  "feedback_unmarked =
     lit ''Bom.'' @ [0x0A] @ stray_header @ [0x0A] @ lit ''|---|---|'' @ [0x0A] @ lit ''|x|y|''"

text \<open>
  A tree with files to collect and to leave, an excluded directory with a file and an
  excluded directory that cannot be listed.
\<close>

definition tree0_files :: "(jsstring \<times> node) list" where
  "tree0_files =
     [(lit ''a.js'', File),
      (lit ''tests'', Dir [(lit ''t.js'', File)]),
      (lit ''lib'', Dir [(lit ''b.js'', File), (lit ''c.txt'', File),
                        (lit ''node_modules'', NoList (lit ''EACCES''))]),
      (lit ''z.js'', File)]"

definition tree0 :: node where
  "tree0 = Dir tree0_files"

text \<open>
  Surroundings in which \<open>src/lib/b.js\<close> cannot be read and every review that is sent
  gets \<open>feedback_table\<close>.
\<close>

definition world0 :: world where
  "world0 =
     \<lparr> GEMINI_API_KEY = Some (lit ''k''),
       src = tree0,
       readFileSync = (\<lambda>p. if p = lit ''src/lib/b.js'' then Inl (lit ''EACCES'') else Inr (lit ''x'')),
       generateContent = (\<lambda>m p. Inr (Some feedback_table)),
       existsSync = (\<lambda>p. False),
       mkdirSync = (\<lambda>p. None),
       writeFileSync = (\<lambda>p d. None) \<rparr>"

text \<open>One file, and a response without text.\<close>

definition world_no_text :: world where
  "world_no_text =
     world0 \<lparr> src := Dir [(lit ''a.js'', File)], generateContent := (\<lambda>m p. Inr None) \<rparr>"

text \<open>One file, reviewed with \<open>feedback_stray\<close> and with \<open>feedback_unmarked\<close>.\<close>

definition world_stray :: world where
  "world_stray =
     world0 \<lparr> src := Dir [(lit ''a.js'', File)],
              generateContent := (\<lambda>m p. Inr (Some feedback_stray)) \<rparr>"

definition world_unmarked :: world where
  "world_unmarked =
     world0 \<lparr> src := Dir [(lit ''a.js'', File)],
              generateContent := (\<lambda>m p. Inr (Some feedback_unmarked)) \<rparr>"

text \<open>The same files in a larger tree, another key, and the report directory present.\<close>

definition world1 :: world where
  "world1 =
     world0 \<lparr> GEMINI_API_KEY := Some (lit ''another''),
              src := Dir [(lit ''a.js'', File),
                          (lit ''lib'', Dir [(lit ''b.js'', File)]),
                          (lit ''reports'', Dir [(lit ''r.js'', File)]),
                          (lit ''notes.md'', File),
                          (lit ''z.js'', File)],
              existsSync := (\<lambda>p. True) \<rparr>"


section \<open>The secret check\<close>

lemma msg_no_key_nonempty: "msg_no_key \<noteq> []"
  by (simp add: msg_no_key_def lit_def)

text \<open>
  C3: if \<open>GEMINI_API_KEY\<close> is absent or empty when \<open>main\<close> is entered, the script makes no
  call to the file system and none to the review service: all it does is print the fatal
  message, which names \<open>GEMINI_API_KEY\<close>, and exit with status 1.
\<close>

theorem missing_secret_aborts:
  assumes "GEMINI_API_KEY w = None \<or> GEMINI_API_KEY w = Some []"
  shows "script w = ([ConsoleError msg_fatal (Message msg_no_key), ProcessExit 1], 1) \<and>
         take 14 msg_no_key = lit ''GEMINI_API_KEY''"
proof -
  from assms have "falsy (GEMINI_API_KEY w)"
    by (auto simp: falsy_def)
  then have "main w = ([], Inl msg_no_key)"
    by (simp add: main_def)
  then have "script w = ([ConsoleError msg_fatal (Message msg_no_key), ProcessExit 1], 1)"
    by (simp add: script_def msg_no_key_nonempty)
  moreover have "take 14 msg_no_key = lit ''GEMINI_API_KEY''"
    by (simp add: msg_no_key_def lit_def)
  ultimately show ?thesis by simp
qed

theorem missing_secret_aborts_witness:
  "(GEMINI_API_KEY (world0 \<lparr> GEMINI_API_KEY := Some [] \<rparr>) = None \<or>
    GEMINI_API_KEY (world0 \<lparr> GEMINI_API_KEY := Some [] \<rparr>) = Some []) \<and>
   script (world0 \<lparr> GEMINI_API_KEY := Some [] \<rparr>) =
     ([ConsoleError msg_fatal (Message msg_no_key), ProcessExit 1], 1)"
  using missing_secret_aborts [of "world0 \<lparr> GEMINI_API_KEY := Some [] \<rparr>"]
  by simp

section \<open>Discovery against its specification\<close>

lemma endsWith_rev: "endsWith s p \<longleftrightarrow> take (length p) (rev s) = rev p"
proof -
  have "take (length p) (rev s) = rev (drop (length s - length p) s)"
    by (simp add: take_rev)
  then show ?thesis
    by (auto simp: endsWith_def dest: arg_cong [where f = length])
qed

lemma endsWith_path_join:
  "endsWith (path_join dir f) (lit ''.js'') \<longleftrightarrow> endsWith f (lit ''.js'')"
proof -
  have "take (Suc (Suc (Suc 0))) (rev f @ 0x2F # rev dir) = [0x73, 0x6A, 0x2E] \<longleftrightarrow>
        take (Suc (Suc (Suc 0))) (rev f) = [0x73, 0x6A, (0x2E :: jschar)]"
  proof (cases "rev f")
    case Nil
    then show ?thesis by (cases "rev dir") auto
  next
    case (Cons a as)
    note c1 = this
    show ?thesis
    proof (cases as)
      case Nil
      then show ?thesis using c1 by auto
    next
      case (Cons b bs)
      then show ?thesis using c1 by (cases bs) auto
    qed
  qed
  then show ?thesis
    by (simp add: endsWith_rev path_join_def lit_def del: take_append)
qed

lemma wanted_Nil: "wanted ([], n) \<longleftrightarrow> endsWith n (lit ''.js'')"
  by (simp add: wanted_def)

lemma wanted_Cons: "wanted (f # ds, n) \<longleftrightarrow> \<not> excluded f \<and> wanted (ds, n)"
  by (simp add: wanted_def)

lemma wanted_under:
  "filter wanted (map (\<lambda>(ds, n). (f # ds, n)) xs) =
     (if excluded f then [] else map (\<lambda>(ds, n). (f # ds, n)) (filter wanted xs))"
  by (induction xs) (auto simp: wanted_Cons)

lemma path_of_Nil: "path_of dir ([], n) = path_join dir n"
  by (simp add: path_of_def)

lemma path_of_Cons: "path_of dir (f # ds, n) = path_of (path_join dir f) (ds, n)"
  by (simp add: path_of_def)

lemma path_of_under:
  "map (path_of dir) (map (\<lambda>(ds, n). (f # ds, n)) xs) = map (path_of (path_join dir f)) xs"
  by (induction xs) (auto simp: path_of_Cons)

lemma discovered_among_Cons:
  "discovered_among dir ((f, nd) # files) =
     (case nd of
        File \<Rightarrow> if endsWith f (lit ''.js'') then [path_join dir f] else []
      | _ \<Rightarrow> if excluded f then [] else discovered (path_join dir f) nd)
     @ discovered_among dir files"
  by (cases nd)
    (simp_all add: discovered_among_def discovered_def wanted_under path_of_under
      wanted_Nil path_of_Nil path_of_Cons)

lemma walk_readable:
  "readable (prune nd) \<Longrightarrow> (\<exists>files. nd = Dir files) \<Longrightarrow>
     \<exists>tr'. walk dir nd tr js = (tr', Inr (js @ discovered dir nd))"
  "readable_entries (prune_entries files) \<Longrightarrow>
     \<exists>tr'. walk_for dir files tr js = (tr', Inr (js @ discovered_among dir files))"
proof (induction dir nd tr js and dir files tr js rule: walk_walk_for.induct)
  case (1 dir files tr jsFiles)
  then show ?case by (simp add: discovered_def discovered_among_def)
next
  case (5 dir tr jsFiles)
  show ?case by (simp add: discovered_among_def)
next
  case (6 dir f nd files tr jsFiles)
  let ?full = "path_join dir f"
  let ?tr1 = "tr @ [StatSync ?full]"
  from "6.prems" have rest: "readable_entries (prune_entries files)" by simp
  show ?case
  proof (cases nd)
    case File
    then have st: "statSync_isDirectory nd = Inr False" by simp
    have nf: "\<not> False" by simp
    show ?thesis
    proof (cases "endsWith f (lit ''.js'')")
      case True
      then have ew: "endsWith ?full (lit ''.js'')" by (simp add: endsWith_path_join)
      from "6.IH"(4) [OF refl refl st nf ew rest] File True ew show ?thesis
        by (simp add: discovered_among_Cons Let_def)
    next
      case False
      then have ew: "\<not> endsWith ?full (lit ''.js'')" by (simp add: endsWith_path_join)
      from "6.IH"(5) [OF refl refl st nf ew rest] File False ew show ?thesis
        by (simp add: discovered_among_Cons Let_def)
    qed
  next
    case (Dir sub)
    then have st: "statSync_isDirectory nd = Inr True" by simp
    show ?thesis
    proof (cases "excluded f")
      case True
      then have ex: "f = lit ''node_modules'' \<or> f = lit ''tests'' \<or> f = lit ''reports''"
        by (simp add: excluded_def)
      from "6.IH"(1) [OF refl refl st TrueI ex rest] Dir ex show ?thesis
        using True by (simp add: discovered_among_Cons Let_def)
    next
      case False
      with "6.prems" Dir have sub: "readable (prune nd)" by simp
      from False have nex: "\<not> (f = lit ''node_modules'' \<or> f = lit ''tests'' \<or> f = lit ''reports'')"
        by (simp add: excluded_def)
      from "6.IH"(2) [OF refl refl st TrueI nex sub] Dir
      obtain tr2 where w: "walk ?full nd ?tr1 jsFiles = (tr2, Inr (jsFiles @ discovered ?full nd))"
        by auto
      from "6.IH"(3) [OF refl refl st TrueI nex w [symmetric] refl rest]
      obtain tr3 where "walk_for dir files tr2 (jsFiles @ discovered ?full nd) =
          (tr3, Inr ((jsFiles @ discovered ?full nd) @ discovered_among dir files))"
        by auto
      with w st False nex show ?thesis
        using Dir by (simp add: discovered_among_Cons Let_def)
    qed
  next
    case (NoEntry e)
    with "6.prems" show ?thesis by simp
  next
    case (NoList e)
    then have st: "statSync_isDirectory nd = Inr True" by simp
    show ?thesis
    proof (cases "excluded f")
      case True
      then have ex: "f = lit ''node_modules'' \<or> f = lit ''tests'' \<or> f = lit ''reports''"
        by (simp add: excluded_def)
      from "6.IH"(1) [OF refl refl st TrueI ex rest] NoList ex show ?thesis
        using True by (simp add: discovered_among_Cons Let_def discovered_def)
    next
      case False
      with "6.prems" NoList show ?thesis by simp
    qed
  qed
qed simp_all

lemma statSync_prune: "statSync_isDirectory (prune nd) = statSync_isDirectory nd"
  by (cases nd) simp_all

lemma walk_prune:
  "walk dir nd tr js = walk dir (prune nd) tr js"
  "walk_for dir files tr js = walk_for dir (prune_entries files) tr js"
proof (induction dir nd tr js and dir files tr js rule: walk_walk_for.induct)
  case (6 dir f nd files tr jsFiles)
  show ?case
  proof (cases "statSync_isDirectory nd")
    case (Inl e)
    then show ?thesis by (simp add: Let_def statSync_prune)
  next
    case (Inr isDir)
    show ?thesis
    proof (cases isDir)
      case False
      with Inr "6.IH"(4,5) show ?thesis
        by (simp add: Let_def statSync_prune)
    next
      case True
      show ?thesis
      proof (cases "f = lit ''node_modules'' \<or> f = lit ''tests'' \<or> f = lit ''reports''")
        case ex: True
        from "6.IH"(1) [OF refl refl Inr True ex] Inr True ex show ?thesis
          by (simp add: Let_def excluded_def)
      next
        case nex: False
        note ih2 = "6.IH"(2) [OF refl refl Inr True nex]
        obtain tr2 r where w: "walk (path_join dir f) nd (tr @ [StatSync (path_join dir f)]) jsFiles = (tr2, r)"
          by (cases "walk (path_join dir f) nd (tr @ [StatSync (path_join dir f)]) jsFiles")
        show ?thesis
        proof (cases r)
          case (Inl e)
          with w ih2 Inr True nex show ?thesis
            by (simp add: Let_def excluded_def statSync_prune)
        next
          case r: (Inr js2)
          from "6.IH"(3) [OF refl refl Inr True nex w [symmetric] r]
            w ih2 Inr True nex r show ?thesis
            by (simp add: Let_def excluded_def statSync_prune)
        qed
      qed
    qed
  qed
qed simp_all

text \<open>
  C5: discovery is a depth-first walk that looks at nothing inside a directory named
  \<open>node_modules\<close>, \<open>tests\<close> or \<open>reports\<close>, at any depth: emptying these directories changes
  neither the result nor the calls made.  Where every other name resolves and every other
  directory can be listed, the walk of a directory appends to \<open>jsFiles\<close> exactly the paths of
  the entries that are not directories, whose name ends with \<open>.js\<close> and that lie under no
  excluded directory, in depth-first listing order.
\<close>

theorem discovery:
  "walk dir nd tr jsFiles = walk dir (prune nd) tr jsFiles \<and>
   (readable (prune (Dir files)) \<longrightarrow>
      snd (walk dir (Dir files) tr jsFiles) = Inr (jsFiles @ discovered dir (Dir files)))"
proof
  show "walk dir nd tr jsFiles = walk dir (prune nd) tr jsFiles"
    by (rule walk_prune(1))
  show "readable (prune (Dir files)) \<longrightarrow>
      snd (walk dir (Dir files) tr jsFiles) = Inr (jsFiles @ discovered dir (Dir files))"
  proof
    assume "readable (prune (Dir files))"
    from walk_readable(1) [OF this, of dir tr jsFiles]
    show "snd (walk dir (Dir files) tr jsFiles) = Inr (jsFiles @ discovered dir (Dir files))"
      by auto
  qed
qed


theorem discovery_witness:
  "readable (prune (Dir tree0_files)) \<and>
   snd (walk (lit ''src'') (Dir tree0_files) [] []) =
     Inr ([] @ discovered (lit ''src'') (Dir tree0_files)) \<and>
   discovered (lit ''src'') (Dir tree0_files) =
     [lit ''src/a.js'', lit ''src/lib/b.js'', lit ''src/z.js'']"
proof -
  have r: "readable (prune (Dir tree0_files))"
    by (simp add: tree0_files_def excluded_def lit_def)
  have c: "snd (walk (lit ''src'') (Dir tree0_files) [] []) =
     Inr ([] @ discovered (lit ''src'') (Dir tree0_files))"
    using discovery [of "lit ''src''" "Dir tree0_files" "[]" "[]" tree0_files] r
    by blast
  have d: "discovered (lit ''src'') (Dir tree0_files) =
     [lit ''src/a.js'', lit ''src/lib/b.js'', lit ''src/z.js'']"
    by (simp add: discovered_def tree0_files_def wanted_def excluded_def endsWith_def
        path_of_def path_join_def lit_def)
  from r c d show ?thesis
    by blast
qed

section \<open>The review loop\<close>

lemma analyzeFile_trace:
  "analyzeFile w f tr = (tr @ fst (analyzeFile w f []), snd (analyzeFile w f []))"
  by (simp add: analyzeFile_def Let_def split: sum.splits)

lemma review_acc:
  "review w f (tr, r, es) =
     (tr @ fst (review w f ([], [], [])), r @ fst (snd (review w f ([], [], []))),
      es @ snd (snd (review w f ([], [], []))))"
proof -
  obtain c res where a: "analyzeFile w f [] = (c, res)"
    by (cases "analyzeFile w f []")
  then have b: "analyzeFile w f tr = (tr @ c, res)"
    using analyzeFile_trace [of w f tr] by simp
  show ?thesis
    by (simp add: a b Let_def split: sum.splits option.splits)
qed

lemma review_all_acc:
  "review_all w fs (tr, r, es) = (tr @ calls w fs, r @ sections w fs, es @ entries w fs)"
proof (induction fs arbitrary: tr r es)
  case Nil
  show ?case by (simp add: calls_def sections_def entries_def)
next
  case (Cons f fs)
  obtain c s e where one: "review w f ([], [], []) = (c, s, e)"
    using prod_cases3 by blast
  have step: "review w f (tr, r, es) = (tr @ c, r @ s, es @ e)" for tr r es
    using review_acc [of w f tr r es] by (simp only: one fst_conv snd_conv)
  have "calls w (f # fs) = c @ calls w fs" "sections w (f # fs) = s @ sections w fs"
    "entries w (f # fs) = e @ entries w fs"
    using Cons.IH [of c s e]
    by (simp_all only: calls_def sections_def entries_def review_all.simps
        step [of "[]" "[]" "[]"] append_Nil fst_conv snd_conv)
  then show ?case
    using Cons.IH [of "tr @ c" "r @ s" "es @ e"]
    by (simp only: review_all.simps step append_assoc)
qed

lemma review_all_append:
  "review_all w (xs @ ys) st = review_all w ys (review_all w xs st)"
  by (induction xs arbitrary: st) simp_all

lemma loop_append:
  "calls w (xs @ ys) = calls w xs @ calls w ys"
  "sections w (xs @ ys) = sections w xs @ sections w ys"
  "entries w (xs @ ys) = entries w xs @ entries w ys"
proof -
  have "review_all w (xs @ ys) ([], [], []) =
      (calls w xs @ calls w ys, sections w xs @ sections w ys, entries w xs @ entries w ys)"
    using review_all_acc [of w xs "[]" "[]" "[]"]
      review_all_acc [of w ys "calls w xs" "sections w xs" "entries w xs"]
    by (simp add: review_all_append)
  then show "calls w (xs @ ys) = calls w xs @ calls w ys"
    "sections w (xs @ ys) = sections w xs @ sections w ys"
    "entries w (xs @ ys) = entries w xs @ entries w ys"
    by (simp_all add: calls_def sections_def entries_def)
qed

lemma loop_Nil: "calls w [] = []" "sections w [] = []" "entries w [] = []"
  by (simp_all add: calls_def sections_def entries_def)

lemma loop_Cons:
  "calls w (f # fs) = calls w [f] @ calls w fs"
  "sections w (f # fs) = sections w [f] @ sections w fs"
  "entries w (f # fs) = entries w [f] @ entries w fs"
  using loop_append [of w "[f]" fs] by simp_all

lemma sections_single:
  "sections w [f] =
     (case snd (analyzeFile w f []) of
        Inl e \<Rightarrow> error_section f e
      | Inr None \<Rightarrow> success_section f None @ error_section f msg_TypeError
      | Inr (Some t) \<Rightarrow> success_section f (Some t))"
  by (cases "analyzeFile w f []")
    (simp add: sections_def Let_def split: sum.splits option.splits)

lemma entries_single:
  "entries w [f] = (case summaryTable w f of None \<Rightarrow> [] | Some m0 \<Rightarrow> [resumo_entry f m0])"
  by (cases "analyzeFile w f []")
    (simp add: entries_def summaryTable_def Let_def split: sum.splits option.splits)

lemma calls_single: "calls w [f] = fst (analyzeFile w f [])"
  by (cases "analyzeFile w f []")
    (simp add: calls_def Let_def split: sum.splits option.splits)

lemma entries_filter:
  "entries w fs =
     map (\<lambda>f. resumo_entry f (the (summaryTable w f)))
       (filter (\<lambda>f. summaryTable w f \<noteq> None) fs)"
proof (induction fs)
  case Nil
  show ?case by (simp add: loop_Nil)
next
  case (Cons f fs)
  then show ?case
    by (simp add: loop_Cons [of w f fs] entries_single split: option.splits)
qed

text \<open>
  The loop appends what it appends for each file, in order; for a file whose review gave
  a text or threw, that is one section.
\<close>

lemma sections_concat: "sections w fs = concat (map (\<lambda>f. sections w [f]) fs)"
proof (induction fs)
  case Nil
  show ?case by (simp add: loop_Nil)
next
  case (Cons f fs)
  then show ?case by (simp add: loop_Cons(2) [of w f fs])
qed

lemma one_section_each:
  assumes "\<forall>f \<in> set fs. snd (analyzeFile w f []) \<noteq> Inr None"
  shows "sections w fs =
     concat (map (\<lambda>f. case snd (analyzeFile w f []) of
                          Inl e \<Rightarrow> error_section f e
                        | Inr text \<Rightarrow> success_section f text) fs)"
proof -
  have "sections w [f] =
      (case snd (analyzeFile w f []) of
         Inl e \<Rightarrow> error_section f e
       | Inr text \<Rightarrow> success_section f text)"
    if "f \<in> set fs" for f
    using that assms by (auto simp: sections_single split: sum.splits option.splits)
  then have "map (\<lambda>f. sections w [f]) fs =
      map (\<lambda>f. case snd (analyzeFile w f []) of
                   Inl e \<Rightarrow> error_section f e
                 | Inr text \<Rightarrow> success_section f text) fs"
    by simp
  then show ?thesis
    by (simp only: sections_concat [of w fs])
qed

section \<open>What is written\<close>

lemma written_append: "written (xs @ ys) = written xs @ written ys"
  by (induction xs rule: written.induct) simp_all

lemma written_walk:
  "written (fst (walk dir nd tr js)) = written tr"
  "written (fst (walk_for dir files tr js)) = written tr"
  by (induction dir nd tr js and dir files tr js rule: walk_walk_for.induct)
    (auto simp: Let_def written_append split: sum.splits prod.splits)

lemma written_calls: "written (calls w fs) = []"
proof (induction fs)
  case Nil
  show ?case by (simp add: loop_Nil)
next
  case (Cons f fs)
  have "written (calls w [f]) = []"
    by (simp add: calls_single analyzeFile_def Let_def split: sum.splits)
  with Cons show ?case
    by (simp add: loop_Cons [of w f fs] written_append)
qed

section \<open>The run\<close>

lemma main_run:
  assumes k: "\<not> falsy (GEMINI_API_KEY w)"
    and wk: "walk (lit ''src'') (src w) [] [] = (tr, Inr jsFiles)"
    and d: "existsSync w (lit ''reports'') \<or> mkdirSync w (lit ''reports'') = None"
  shows "main w =
     (tr @ ExistsSync (lit ''reports'') #
        (if existsSync w (lit ''reports'') then [] else [MkdirSync (lit ''reports'')]) @
        calls w jsFiles @ [WriteFileSync report_path (report_of w jsFiles)],
      case writeFileSync w report_path (report_of w jsFiles) of
        Some e \<Rightarrow> Inl e | None \<Rightarrow> Inr ())"
  using k d
  by (auto simp: main_def wk Let_def review_all_acc report_of_def)

lemma main_walk_fails:
  assumes k: "\<not> falsy (GEMINI_API_KEY w)"
    and wk: "walk (lit ''src'') (src w) [] [] = (tr, Inl e)"
  shows "main w = (tr, Inl e)"
  using k by (simp add: main_def wk)

lemma main_mkdir_fails:
  assumes k: "\<not> falsy (GEMINI_API_KEY w)"
    and wk: "walk (lit ''src'') (src w) [] [] = (tr, Inr jsFiles)"
    and d: "\<not> existsSync w (lit ''reports'')" "mkdirSync w (lit ''reports'') = Some e"
  shows "main w = (tr @ [ExistsSync (lit ''reports''), MkdirSync (lit ''reports'')], Inl e)"
  using k d by (simp add: main_def wk)

lemma written_main:
  "written (fst (main w)) = [] \<or>
   (\<exists>jsFiles. \<not> falsy (GEMINI_API_KEY w) \<and>
      snd (walk (lit ''src'') (src w) [] []) = Inr jsFiles \<and>
      written (fst (main w)) = [(report_path, report_of w jsFiles)])"
proof (cases "falsy (GEMINI_API_KEY w)")
  case True
  then show ?thesis by (simp add: main_def)
next
  case k: False
  obtain tr res where wk: "walk (lit ''src'') (src w) [] [] = (tr, res)"
    by (cases "walk (lit ''src'') (src w) [] []")
  have wr: "written tr = []"
    using written_walk(1) [of "lit ''src''" "src w" "[]" "[]"] by (simp add: wk)
  show ?thesis
  proof (cases res)
    case (Inl e)
    with k wk wr show ?thesis by (simp add: main_walk_fails)
  next
    case (Inr jsFiles)
    show ?thesis
    proof (cases "existsSync w (lit ''reports'') \<or> mkdirSync w (lit ''reports'') = None")
      case True
      from main_run [OF k wk [unfolded Inr] True] wr k wk Inr show ?thesis
        by (simp add: written_append written_calls)
    next
      case False
      then obtain e where "\<not> existsSync w (lit ''reports'')" "mkdirSync w (lit ''reports'') = Some e"
        by auto
      from main_mkdir_fails [OF k wk [unfolded Inr] this] wr show ?thesis
        by (simp add: written_append)
    qed
  qed
qed

lemma written_script: "written (fst (script w)) = written (fst (main w))"
  by (cases "main w") (simp add: script_def written_append split: sum.splits)

section \<open>Extraction of the summary table\<close>

text \<open>
  C2: on \<open>feedback_table\<close>, whose table follows the marker and is well formed, the script
  extracts the header row, the separator row and a lone bar: the data row
  \<open>| Uso de var | linha 3 |\<close> is not reproduced.  The last \<open>.*?\<close> of the pattern matches
  nothing, so the match ends right after the bar that opens the last row.
\<close>

theorem table_extraction_cuts_last_row:
  "extractTable feedback_table =
     Some (lit ''| Problema Principal | Local/Linha Sugerida |'' @ [0x0A] @
           lit ''|---|---|'' @ [0x0A] @ lit ''|'') \<and>
   entries world0 [lit ''src/a.js''] =
     [lit ''### Resumo do Arquivo: '' @ [0x60] @ lit ''src/a.js'' @ [0x60, 0x0A] @
      lit ''| Problema Principal | Local/Linha Sugerida |'' @ [0x0A] @
      lit ''|---|---|'' @ [0x0A] @ lit ''|'' @ [0x0A]]"
proof -
  have x: "extractTable feedback_table =
     Some (lit ''| Problema Principal | Local/Linha Sugerida |'' @ [0x0A] @
           lit ''|---|---|'' @ [0x0A] @ lit ''|'')"
    by (simp add: feedback_table_def extractTable_def indexOf_def substring_def
        tableStartMarker_def tableRegex_def tableRow_def Plus_def lit_def)
  have t: "trim (lit ''| Problema Principal | Local/Linha Sugerida |'' @ [0x0A] @
                 lit ''|---|---|'' @ [0x0A] @ lit ''|'') =
           lit ''| Problema Principal | Local/Linha Sugerida |'' @ [0x0A] @
           lit ''|---|---|'' @ [0x0A] @ lit ''|''"
    by (simp add: trim_def isSpace_def lit_def)
  have "entries world0 [lit ''src/a.js''] =
     [resumo_entry (lit ''src/a.js'')
        (lit ''| Problema Principal | Local/Linha Sugerida |'' @ [0x0A] @
         lit ''|---|---|'' @ [0x0A] @ lit ''|'')]"
    by (simp add: entries_def analyzeFile_def world0_def falsy_def x Let_def)
      (simp add: lit_def)
  with x t show ?thesis
    by (simp add: resumo_entry_def)
qed

lemma occurs_Nil: "occurs p [] \<longleftrightarrow> p = []"
  by (auto simp: occurs_def)

lemma occurs_Cons:
  "occurs p (x # s) \<longleftrightarrow> take (length p) (x # s) = p \<or> occurs p s"
proof
  assume "occurs p (x # s)"
  then obtain b a where eq: "x # s = b @ p @ a"
    by (auto simp: occurs_def)
  show "take (length p) (x # s) = p \<or> occurs p s"
  proof (cases b)
    case Nil
    with eq show ?thesis by simp
  next
    case (Cons y b')
    with eq have "s = b' @ p @ a" by simp
    then show ?thesis by (auto simp: occurs_def)
  qed
next
  assume "take (length p) (x # s) = p \<or> occurs p s"
  then show "occurs p (x # s)"
  proof
    assume "take (length p) (x # s) = p"
    then have "x # s = [] @ p @ drop (length p) (x # s)"
      by (metis append_Nil append_take_drop_id)
    then show ?thesis unfolding occurs_def by blast
  next
    assume "occurs p s"
    then obtain b a where "s = b @ p @ a"
      by (auto simp: occurs_def)
    then have "x # s = (x # b) @ p @ a" by simp
    then show ?thesis unfolding occurs_def by blast
  qed
qed

lemma indexOfFrom_none: "indexOfFrom s p i = - 1 \<longleftrightarrow> \<not> occurs p s"
  by (induction s arbitrary: i) (auto simp: occurs_Nil occurs_Cons)

lemma indexOf_none: "indexOf s p = - 1 \<longleftrightarrow> \<not> occurs p s"
  by (simp add: indexOf_def indexOfFrom_none)

subsection \<open>The pattern in general\<close>

text \<open>
  Whatever the text, a match of the table pattern that starts at a bar runs to the last
  line break that is followed by a bar and ends right after that bar.
\<close>

lemma ends_Lazy_Dot:
  "ends (Lazy Dot) [] = [[]]"
  "ends (Lazy Dot) (x # t) = (x # t) # ends (Lazy Dot) t"
proof -
  show "ends (Lazy Dot) [] = [[]]"
    by (subst ends.simps(5)) simp
  show "ends (Lazy Dot) (x # t) = (x # t) # ends (Lazy Dot) t"
    by (subst ends.simps(5)) (simp del: ends.simps(5))
qed


lemma ends_Dot_nl: "concat (map (ends (Chr 0x0A)) (ends (Lazy Dot) t)) = afters t"
  by (induction t) (simp_all del: ends.simps(5) add: ends_Lazy_Dot)

lemma ends_tableRow:
  "ends tableRow s = (case s of [] \<Rightarrow> [] | x # t \<Rightarrow> if x = 0x7C then afters t else [])"
  by (cases s) (simp_all add: tableRow_def ends_Dot_nl del: ends.simps(5))

lemma afters_shorter: "u \<in> set (afters t) \<Longrightarrow> length u < Suc (length t)"
  by (induction t) (auto split: if_splits)

lemma ends_Star_tableRow:
  "ends (Star tableRow) s =
     concat (map (ends (Star tableRow)) (ends tableRow s)) @ [s]"
proof -
  have "filter (\<lambda>t. length t < length s) (ends tableRow s) = ends tableRow s"
    by (cases s) (auto simp: ends_tableRow filter_id_conv dest: afters_shorter)
  then show ?thesis
    by (subst ends.simps(4)) (simp del: ends.simps)
qed

lemma find_append:
  "find P (xs @ ys) = (case find P xs of None \<Rightarrow> find P ys | Some x \<Rightarrow> Some x)"
  by (induction xs) simp_all

lemma isRow_simps: "isRow [] = False" "isRow (x # v) = (x = 0x7C)"
  by (simp_all add: isRow_def)

lemma last_row_bar: "last_row (0x7C # v) = last_row v"
  by (cases v) (simp_all split: option.splits)

lemma last_row_Cons:
  "last_row (x # t) =
     (case last_row t of
        Some u \<Rightarrow> Some u
      | None \<Rightarrow> if x = 0x0A \<and> isRow t then Some t else None)"
  by (cases t) (simp_all add: isRow_simps split: option.splits)

lemma Star_row: "ends (Star tableRow) (0x7C # t) =
    concat (map (ends (Star tableRow)) (afters t)) @ [0x7C # t]"
  by (subst ends_Star_tableRow) (simp add: ends_tableRow del: ends.simps)

lemma Star_other: "x \<noteq> 0x7C \<Longrightarrow> ends (Star tableRow) (x # t) = [x # t]"
  by (subst ends_Star_tableRow) (simp add: ends_tableRow del: ends.simps)

lemma Star_Nil: "ends (Star tableRow) [] = [[]]"
  by (subst ends_Star_tableRow) (simp add: ends_tableRow del: ends.simps)

lemma afters_Cons:
  "concat (map f (afters (x # t))) = (if x = 0x0A then f t else []) @ concat (map f (afters t))"
  by simp

lemma first_row:
  "length s \<le> n \<Longrightarrow>
     find isRow (ends (Star tableRow) s) =
       (if isRow s then (case last_row (tl s) of Some u \<Rightarrow> Some u | None \<Rightarrow> Some s) else None) \<and>
     find isRow (concat (map (ends (Star tableRow)) (afters s))) = last_row s"
proof (induction n arbitrary: s)
  case 0
  then have "s = []" by simp
  then show ?case
    by (simp add: Star_Nil isRow_simps del: ends.simps)
next
  case (Suc n)
  show ?case
  proof (cases s)
    case Nil
    then show ?thesis
      by (simp add: Star_Nil isRow_simps del: ends.simps)
  next
    case (Cons x t)
    then have len: "length t \<le> n" using Suc.prems by simp
    from Suc.IH [OF len]
    have iha: "find isRow (ends (Star tableRow) t) =
        (if isRow t then (case last_row (tl t) of Some u \<Rightarrow> Some u | None \<Rightarrow> Some t) else None)"
      and ihb: "find isRow (concat (map (ends (Star tableRow)) (afters t))) = last_row t"
      by blast+
    have b: "find isRow (concat (map (ends (Star tableRow)) (afters (x # t)))) = last_row (x # t)"
    proof (cases "x = 0x0A")
      case False
      then show ?thesis
        by (simp add: afters_Cons find_append ihb last_row_Cons
            del: ends.simps last_row.simps afters.simps split: option.splits)
    next
      case nl: True
      show ?thesis
      proof (cases "isRow t")
        case False
        with iha have "find isRow (ends (Star tableRow) t) = None" by simp
        with nl False show ?thesis
          by (simp add: afters_Cons find_append ihb last_row_Cons
              del: ends.simps last_row.simps afters.simps split: option.splits)
      next
        case True
        then obtain v where t: "t = 0x7C # v"
          by (cases t) (simp_all add: isRow_simps)
        from True iha t have e: "find isRow (ends (Star tableRow) t) =
            (case last_row v of Some u \<Rightarrow> Some u | None \<Rightarrow> Some t)"
          by simp
        have l: "last_row t = last_row v"
          by (simp only: t last_row_bar)
        show ?thesis
          using nl True
          by (simp add: afters_Cons find_append ihb last_row_Cons e l
              del: ends.simps last_row.simps afters.simps split: option.splits)
      qed
    qed
    have a: "find isRow (ends (Star tableRow) (x # t)) =
       (if isRow (x # t)
        then (case last_row (tl (x # t)) of Some u \<Rightarrow> Some u | None \<Rightarrow> Some (x # t))
        else None)"
    proof (cases "x = 0x7C")
      case False
      then show ?thesis
        by (simp add: Star_other isRow_simps del: ends.simps)
    next
      case True
      then show ?thesis
        by (simp add: Star_row find_append ihb isRow_simps del: ends.simps last_row.simps
            split: option.splits)
    qed
    from a b Cons show ?thesis by (simp only:) 
  qed
qed


lemma Plus_row: "ends (Plus tableRow) (0x7C # t) = concat (map (ends (Star tableRow)) (afters t))"
  by (simp add: Plus_def ends_tableRow del: ends.simps(4,5))

lemma Plus_other: "x \<noteq> 0x7C \<Longrightarrow> ends (Plus tableRow) (x # t) = []"
  by (simp add: Plus_def ends_tableRow del: ends.simps(4,5))

lemma Plus_Nil: "ends (Plus tableRow) [] = []"
  by (simp add: Plus_def ends_tableRow del: ends.simps(4,5))

lemma Lazy_Dot_head: "\<exists>rest. ends (Lazy Dot) v = v # rest"
  by (subst ends.simps(5)) blast

lemma ends_tail:
  "ends (Cat (Chr 0x7C) (Lazy Dot)) u = (if isRow u then ends (Lazy Dot) (tl u) else [])"
  by (cases u) (simp_all add: isRow_simps del: ends.simps(5))

lemma first_end:
  "(case concat (map (ends (Cat (Chr 0x7C) (Lazy Dot))) us) of [] \<Rightarrow> None | v # _ \<Rightarrow> Some v) =
     map_option tl (find isRow us)"
proof (induction us)
  case Nil
  show ?case by simp
next
  case (Cons u us)
  show ?case
  proof (cases "isRow u")
    case True
    obtain rest where "ends (Lazy Dot) (tl u) = tl u # rest"
      using Lazy_Dot_head by blast
    with True show ?thesis
      by (simp add: ends_tail del: ends.simps)
  next
    case False
    with Cons show ?thesis
      by (simp add: ends_tail del: ends.simps)
  qed
qed

lemma tableRegex_row:
  "(case ends tableRegex (0x7C # t) of [] \<Rightarrow> None | v # _ \<Rightarrow> Some v) = map_option tl (last_row t)"
proof -
  have "ends tableRegex (0x7C # t) =
      concat (map (ends (Cat (Chr 0x7C) (Lazy Dot)))
        (concat (map (ends (Star tableRow)) (afters t))))"
    by (simp add: tableRegex_def Plus_row del: ends.simps(4,5))
  moreover have "find isRow (concat (map (ends (Star tableRow)) (afters t))) = last_row t"
    using first_row [of t "length t"] by simp
  ultimately show ?thesis
    by (simp only: first_end)
qed

lemma tableRegex_other:
  "x \<noteq> 0x7C \<Longrightarrow> ends tableRegex (x # t) = []"
  "ends tableRegex [] = []"
  by (simp_all add: tableRegex_def Plus_other Plus_Nil del: ends.simps(4,5))

lemma last_row_None: "last_row (x # t) = None \<Longrightarrow> last_row t = None"
  by (simp add: last_row_Cons del: last_row.simps split: option.splits)

lemma match_none: "last_row t = None \<Longrightarrow> match t tableRegex = None"
proof (induction t)
  case Nil
  show ?case by (simp add: tableRegex_other del: ends.simps)
next
  case (Cons x t)
  from Cons.prems have n: "last_row t = None" by (rule last_row_None)
  with Cons.IH have ih: "match t tableRegex = None" by simp
  show ?case
  proof (cases "x = 0x7C")
    case False
    with ih show ?thesis
      by (simp add: tableRegex_other del: ends.simps)
  next
    case True
    with tableRegex_row [of t] n have "ends tableRegex (x # t) = []"
      by (simp split: list.splits)
    with ih show ?thesis by (simp del: ends.simps)
  qed
qed

lemma last_row_split:
  "last_row t = Some u \<Longrightarrow> \<exists>pre v. t = pre @ 0x0A # u \<and> u = 0x7C # v \<and> last_row u = None"
proof (induction t)
  case Nil
  then show ?case by simp
next
  case (Cons x t)
  show ?case
  proof (cases "last_row t")
    case (Some u')
    with Cons.prems have "u' = u" by (simp add: last_row_Cons del: last_row.simps)
    with Some Cons.IH obtain pre v where "t = pre @ 0x0A # u" "u = 0x7C # v" "last_row u = None"
      by blast
    then have "x # t = (x # pre) @ 0x0A # u \<and> u = 0x7C # v \<and> last_row u = None" by simp
    then show ?thesis by blast
  next
    case None
    with Cons.prems have x: "x = 0x0A" and r: "isRow t" and u: "u = t"
      by (simp_all add: last_row_Cons del: last_row.simps split: if_splits)
    from r obtain v where "t = 0x7C # v"
      by (cases t) (simp_all add: isRow_simps)
    with x u None have "x # t = [] @ 0x0A # u \<and> u = 0x7C # v \<and> last_row u = None" by simp
    then show ?thesis by blast
  qed
qed

lemma match_row:
  "match (0x7C # t) tableRegex = Some m \<longleftrightarrow>
     (\<exists>pre v. t = pre @ [0x0A, 0x7C] @ v \<and> last_row (0x7C # v) = None \<and>
        m = 0x7C # pre @ [0x0A, 0x7C])"
proof (cases "last_row t")
  case None
  then have "match (0x7C # t) tableRegex = None"
    using match_none [of "0x7C # t"] by (simp add: last_row_bar del: last_row.simps)
  moreover have "\<not> (\<exists>pre v. t = pre @ [0x0A, 0x7C] @ v \<and> last_row (0x7C # v) = None \<and>
        m = 0x7C # pre @ [0x0A, 0x7C])"
  proof
    assume "\<exists>pre v. t = pre @ [0x0A, 0x7C] @ v \<and> last_row (0x7C # v) = None \<and>
        m = 0x7C # pre @ [0x0A, 0x7C]"
    then obtain pre v where "t = pre @ [0x0A, 0x7C] @ v" by blast
    then have "last_row t \<noteq> None"
      by (induction pre arbitrary: t) (auto split: option.splits)
    with None show False by simp
  qed
  ultimately show ?thesis by simp
next
  case (Some u)
  from last_row_split [OF this] obtain pre v where
    t: "t = pre @ 0x0A # u" and u: "u = 0x7C # v" and l: "last_row u = None"
    by blast
  from tableRegex_row [of t] Some u obtain rest where
    e: "ends tableRegex (0x7C # t) = v # rest"
    by (auto split: list.splits)
  have eq: "0x7C # t = (0x7C # pre @ [0x0A, 0x7C]) @ v"
    by (simp add: t u)
  have len: "length (0x7C # t) - length v = length (0x7C # pre @ [0x0A, 0x7C])"
    by (simp add: t u)
  have "take (length a) (a @ v) = a" for a :: jsstring
    by simp
  from this [of "0x7C # pre @ [0x0A, 0x7C]"]
  have "take (length (0x7C # t) - length v) (0x7C # t) = 0x7C # pre @ [0x0A, 0x7C]"
    by (simp only: eq length_append add_diff_cancel_right')
  with e have m: "match (0x7C # t) tableRegex = Some (0x7C # pre @ [0x0A, 0x7C])"
    by (simp del: ends.simps)
  show ?thesis
  proof
    assume "match (0x7C # t) tableRegex = Some m"
    with m have "m = 0x7C # pre @ [0x0A, 0x7C]" by simp
    with t u l show "\<exists>pre v. t = pre @ [0x0A, 0x7C] @ v \<and> last_row (0x7C # v) = None \<and>
        m = 0x7C # pre @ [0x0A, 0x7C]"
      by auto
  next
    assume "\<exists>pre v. t = pre @ [0x0A, 0x7C] @ v \<and> last_row (0x7C # v) = None \<and>
        m = 0x7C # pre @ [0x0A, 0x7C]"
    then obtain pre' v' where t': "t = pre' @ [0x0A, 0x7C] @ v'"
      and l': "last_row (0x7C # v') = None" and m': "m = 0x7C # pre' @ [0x0A, 0x7C]"
      by blast
    have "last_row (pre' @ 0x0A # 0x7C # v') = Some (0x7C # v')"
      using l' by (induction pre') (simp_all add: last_row_bar del: last_row.simps(2) add: last_row_Cons isRow_simps)
    with t' Some have "u = 0x7C # v'" by simp
    with t t' u have "pre = pre'" by simp
    with m m' show "match (0x7C # t) tableRegex = Some m" by simp
  qed
qed


lemma last_row_occurs: "last_row s = None \<longleftrightarrow> \<not> occurs [0x0A, 0x7C] s"
proof (induction s)
  case Nil
  show ?case by (simp add: occurs_Nil)
next
  case (Cons x s)
  have t: "take (length [0x0A, 0x7C :: jschar]) (x # s) = [0x0A, 0x7C] \<longleftrightarrow> x = 0x0A \<and> isRow s"
    by (cases s) (auto simp: isRow_simps)
  have a: "last_row (x # s) = None \<longleftrightarrow> last_row s = None \<and> \<not> (x = 0x0A \<and> isRow s)"
    by (simp add: last_row_Cons del: last_row.simps split: option.splits)
  have b: "occurs [0x0A, 0x7C] (x # s) \<longleftrightarrow> (x = 0x0A \<and> isRow s) \<or> occurs [0x0A, 0x7C] s"
    using occurs_Cons [of "[0x0A, 0x7C]" x s] t by blast
  from a b Cons show ?case by blast
qed

lemma indexOfFrom_found:
  "indexOfFrom s p k = i \<Longrightarrow> i \<noteq> - 1 \<Longrightarrow>
     int k \<le> i \<and> nat i - k \<le> length s \<and> take (length p) (drop (nat i - k) s) = p"
proof (induction s arbitrary: k)
  case Nil
  then show ?case by (auto split: if_splits)
next
  case (Cons x s)
  show ?case
  proof (cases "take (length p) (x # s) = p")
    case True
    with Cons.prems show ?thesis by auto
  next
    case False
    with Cons.prems have "indexOfFrom s p (Suc k) = i" by simp
    from Cons.IH [OF this Cons.prems(2)]
    have "int (Suc k) \<le> i" "nat i - Suc k \<le> length s"
      "take (length p) (drop (nat i - Suc k) s) = p"
      by simp_all
    moreover from \<open>int (Suc k) \<le> i\<close> have "nat i - k = Suc (nat i - Suc k)"
      by linarith
    ultimately show ?thesis by simp
  qed
qed

lemma indexOf_found:
  assumes "indexOf s p \<noteq> - 1"
  shows "\<exists>rest. substring s (indexOf s p) = p @ rest"
proof -
  from indexOfFrom_found [OF refl, of s p 0] assms
  have "take (length p) (drop (nat (indexOf s p)) s) = p"
    by (simp add: indexOf_def)
  then have "drop (nat (indexOf s p)) s = p @ drop (length p) (drop (nat (indexOf s p)) s)"
    by (metis append_take_drop_id)
  then show ?thesis
    unfolding substring_def by blast
qed

lemma marker_bar: "tableStartMarker = 0x7C # tl tableStartMarker"
  by (simp add: tableStartMarker_def lit_def)

lemma extractTable_last_row_cut:
  assumes "extractTable text = Some m"
  shows "\<exists>h v. substring text (indexOf text tableStartMarker) = m @ v \<and>
           m = 0x7C # h @ [0x0A, 0x7C] \<and> \<not> occurs [0x0A, 0x7C] (0x7C # v)"
proof -
  from assms have i: "indexOf text tableStartMarker \<noteq> - 1"
    by (auto simp: extractTable_def Let_def split: if_splits)
  from indexOf_found [OF this] obtain rest where
    "substring text (indexOf text tableStartMarker) = tableStartMarker @ rest"
    by blast
  with marker_bar have c: "substring text (indexOf text tableStartMarker) =
      0x7C # (tl tableStartMarker @ rest)"
    by (metis append_Cons)
  from assms i c have "match (0x7C # (tl tableStartMarker @ rest)) tableRegex = Some m"
    by (auto simp: extractTable_def Let_def split: option.splits if_splits)
  then obtain pre v where t: "tl tableStartMarker @ rest = pre @ [0x0A, 0x7C] @ v"
    and l: "last_row (0x7C # v) = None" and m: "m = 0x7C # pre @ [0x0A, 0x7C]"
    unfolding match_row by blast
  from c t m have "substring text (indexOf text tableStartMarker) = m @ v"
    by simp
  moreover have "\<not> occurs [0x0A, 0x7C] (0x7C # v)"
    using l last_row_occurs [of "0x7C # v"] by blast
  ultimately show ?thesis
    using m by blast
qed

lemma extracted_trim:
  assumes "extractTable text = Some m"
  shows "trim m = m"
proof -
  from extractTable_last_row_cut [OF assms] obtain h where m: "m = 0x7C # h @ [0x0A, 0x7C]"
    by blast
  have b: "\<not> isSpace 0x7C"
    by (simp add: isSpace_def)
  then show ?thesis
    by (simp add: trim_def m)
qed

subsection \<open>Without the marker\<close>

text \<open>
  C9, as amended: extraction is triggered only by the exact substring
  \<open>| Problema Principal\<close>.  For every review that gave a text in which that substring occurs
  nowhere, so in particular not in the header line of its table, no summary entry is
  produced, and the section of the file holds the whole text.
\<close>

theorem no_marker_no_summary:
  assumes "\<not> occurs tableStartMarker text"
    and "snd (analyzeFile w filePath tr) = Inr (Some text)"
  shows "tableStartMarker = lit ''| Problema Principal'' \<and>
     extractTable text = None \<and>
     (\<exists>tr'. review w filePath (tr, report, resumoProblemas) =
        (tr', report @ lit ''## Arquivo: '' @ filePath @ [0x0A, 0x0A] @ text @ [0x0A, 0x0A],
         resumoProblemas))"
proof -
  have m: "tableStartMarker = lit ''| Problema Principal''"
    by (simp add: tableStartMarker_def lit_def)
  from assms(1) have x: "extractTable text = None"
    by (simp add: extractTable_def indexOf_none)
  obtain tr1 where a: "analyzeFile w filePath tr = (tr1, Inr (Some text))"
    using assms(2) by (cases "analyzeFile w filePath tr") simp
  have "review w filePath (tr, report, resumoProblemas) =
        (tr1, report @ lit ''## Arquivo: '' @ filePath @ [0x0A, 0x0A] @ text @ [0x0A, 0x0A],
         resumoProblemas)"
    by (simp add: a x success_section_def section_head_def toString_def)
  with m x show ?thesis by blast
qed

lemma unmarked_analysis:
  "snd (analyzeFile world_unmarked (lit ''src/a.js'') []) = Inr (Some feedback_unmarked)"
  by (simp add: analyzeFile_def Let_def world_unmarked_def world0_def falsy_def)
    (simp add: lit_def)

lemma unmarked_no_marker: "\<not> occurs tableStartMarker feedback_unmarked"
proof -
  have "indexOf feedback_unmarked tableStartMarker = - 1"
    by (simp add: indexOf_def feedback_unmarked_def stray_header_def tableStartMarker_def lit_def)
  then show ?thesis by (simp add: indexOf_none)
qed

theorem no_marker_no_summary_witness:
  "\<not> occurs tableStartMarker feedback_unmarked \<and>
   snd (analyzeFile world_unmarked (lit ''src/a.js'') []) = Inr (Some feedback_unmarked) \<and>
   extractTable feedback_unmarked = None \<and>
   (\<exists>tr'. review world_unmarked (lit ''src/a.js'') ([], report_title, []) =
      (tr', report_title @ lit ''## Arquivo: '' @ lit ''src/a.js'' @ [0x0A, 0x0A] @
            feedback_unmarked @ [0x0A, 0x0A], []))"
  using no_marker_no_summary [OF unmarked_no_marker unmarked_analysis, of report_title "[]"]
    unmarked_no_marker unmarked_analysis
  by blast

text \<open>
  C9 as stated does not hold: the header line of the table of \<open>feedback_stray\<close> does not
  contain the marker, the sentence before the table does, and a summary entry is produced.
\<close>

theorem marker_outside_header_counterexample:
  "indexOf stray_header tableStartMarker = - 1 \<and>
   snd (analyzeFile world_stray (lit ''src/a.js'') []) = Inr (Some feedback_stray) \<and>
   entries world_stray [lit ''src/a.js''] =
     [lit ''### Resumo do Arquivo: '' @ [0x60] @ lit ''src/a.js'' @ [0x60, 0x0A] @
      lit ''| Problema Principal.'' @ [0x0A] @ stray_header @ [0x0A] @
      lit ''|---|---|'' @ [0x0A] @ lit ''|'' @ [0x0A]]"
proof -
  have i: "indexOf stray_header tableStartMarker = - 1"
    by (simp add: indexOf_def stray_header_def tableStartMarker_def lit_def)
  have a: "snd (analyzeFile world_stray (lit ''src/a.js'') []) = Inr (Some feedback_stray)"
    by (simp add: analyzeFile_def Let_def world_stray_def world0_def falsy_def)
      (simp add: lit_def)
  have x: "extractTable feedback_stray =
      Some (lit ''| Problema Principal.'' @ [0x0A] @ stray_header @ [0x0A] @
            lit ''|---|---|'' @ [0x0A] @ lit ''|'')"
    by (simp add: feedback_stray_def stray_header_def extractTable_def indexOf_def
        substring_def tableStartMarker_def tableRegex_def tableRow_def Plus_def lit_def)
  have t: "trim (lit ''| Problema Principal.'' @ [0x0A] @ stray_header @ [0x0A] @
                 lit ''|---|---|'' @ [0x0A] @ lit ''|'') =
           lit ''| Problema Principal.'' @ [0x0A] @ stray_header @ [0x0A] @
           lit ''|---|---|'' @ [0x0A] @ lit ''|''"
    by (simp add: trim_def isSpace_def stray_header_def lit_def)
  have "entries world_stray [lit ''src/a.js''] =
     [resumo_entry (lit ''src/a.js'')
        (lit ''| Problema Principal.'' @ [0x0A] @ stray_header @ [0x0A] @
         lit ''|---|---|'' @ [0x0A] @ lit ''|'')]"
    by (simp add: entries_single summaryTable_def a x)
  with i a t show ?thesis
    by (simp add: resumo_entry_def)
qed

section \<open>The report of a run\<close>

lemma tabelaGeral_cases:
  "tabelaGeral es = summary_heading @
     (if es = [] then summary_placeholder else summary_intro @ join es [0x0A])"
  by (simp add: tabelaGeral_def)

lemma completed_written:
  assumes "main w = (tr, Inr ())" and "snd (walk (lit ''src'') (src w) [] []) = Inr jsFiles"
  shows "written tr = [(report_path, report_of w jsFiles)]"
proof -
  from assms(1) have k: "\<not> falsy (GEMINI_API_KEY w)"
    by (auto simp: main_def)
  obtain tr0 where wk: "walk (lit ''src'') (src w) [] [] = (tr0, Inr jsFiles)"
    using assms(2) by (cases "walk (lit ''src'') (src w) [] []") simp
  have wr: "written tr0 = []"
    using written_walk(1) [of "lit ''src''" "src w" "[]" "[]"] by (simp add: wk)
  have d: "existsSync w (lit ''reports'') \<or> mkdirSync w (lit ''reports'') = None"
  proof (rule ccontr)
    assume "\<not> ?thesis"
    then obtain e where "\<not> existsSync w (lit ''reports'')" "mkdirSync w (lit ''reports'') = Some e"
      by auto
    from main_mkdir_fails [OF k wk this] assms(1) show False by simp
  qed
  from main_run [OF k wk d] assms(1) wr show ?thesis
    by (auto simp: written_append written_calls)
qed

text \<open>
  \<open>join\<close> puts the separator before every element but the first; an extracted table is
  its own \<open>trim\<close>; every section starts with the label of its file and ends with a blank
  line.
\<close>

lemma join_hd_tl:
  "es \<noteq> [] \<Longrightarrow> join es sep = hd es @ concat (map (\<lambda>e. sep @ e) (tl es))"
  by (induction es sep rule: join.induct) simp_all

lemma summaryTable_trim:
  assumes "summaryTable w f = Some m"
  shows "trim m = m"
proof -
  from assms obtain fb where "extractTable fb = Some m"
    by (auto simp: summaryTable_def split: sum.splits option.splits)
  then show ?thesis
    by (rule extracted_trim)
qed

lemma entries_spelled:
  "entries w fs =
     map (\<lambda>f. lit ''### Resumo do Arquivo: '' @ [0x60] @ f @ [0x60, 0x0A] @
                the (summaryTable w f) @ [0x0A])
       (filter (\<lambda>f. summaryTable w f \<noteq> None) fs)"
proof -
  have "resumo_entry f (the (summaryTable w f)) =
      lit ''### Resumo do Arquivo: '' @ [0x60] @ f @ [0x60, 0x0A] @
      the (summaryTable w f) @ [0x0A]"
    if "summaryTable w f \<noteq> None" for f
  proof -
    from that obtain m where m: "summaryTable w f = Some m"
      by blast
    then show ?thesis
      by (simp add: resumo_entry_def summaryTable_trim [OF m])
  qed
  then show ?thesis
    by (simp add: entries_filter)
qed

lemma entries_none:
  "(entries w fs = []) = (\<forall>f \<in> set fs. summaryTable w f = None)"
  by (simp add: entries_filter filter_empty_conv)

lemma report_framed:
  "report_of w fs =
       (lit ''# Relat'' @ [0xF3] @ lit ''rio de Revis'' @ [0xE3] @ lit ''o AI '' @ [0x2013] @
        lit '' Gemini'' @ [0x0A, 0x0A]) @
       sections w fs @
       ([0x0A] @ lit ''---'' @ [0x0A, 0x0A]) @
       (lit ''## '' @ [0xD83D, 0xDCCA] @ lit '' Resumo de Problemas por Arquivo'' @
        [0x0A, 0x0A]) @
       (if entries w fs = []
        then lit ''Nenhum arquivo JavaScript encontrado para an'' @ [0xE1] @
             lit ''lise ou n'' @ [0xE3] @ lit ''o foi poss'' @ [0xED] @
             lit ''vel extrair os resumos das tabelas.'' @ [0x0A, 0x0A]
        else (lit ''Este '' @ [0xE9] @ lit '' o resumo de problemas extra'' @ [0xED] @
              lit ''dos automaticamente do feedback detalhado de cada arquivo. Use-o para priorizar corre'' @
              [0xE7, 0xF5] @ lit ''es:'' @ [0x0A, 0x0A]) @
          hd (entries w fs) @
          concat (map (\<lambda>e. 0x0A # e) (tl (entries w fs))))"
proof (cases "entries w fs = []")
  case True
  then show ?thesis
    by (simp add: report_of_def tabelaGeral_def report_title_def summary_rule_def
        summary_heading_def summary_placeholder_def)
next
  case False
  from join_hd_tl [OF this, of "[0x0A]"] False show ?thesis
    by (simp add: report_of_def tabelaGeral_def report_title_def summary_rule_def
        summary_heading_def summary_intro_def)
qed

lemma report_spelled:
  "report_of w fs =
       (lit ''# Relat'' @ [0xF3] @ lit ''rio de Revis'' @ [0xE3] @ lit ''o AI '' @ [0x2013] @
        lit '' Gemini'' @ [0x0A, 0x0A]) @
       sections w fs @
       ([0x0A] @ lit ''---'' @ [0x0A, 0x0A]) @
       (lit ''## '' @ [0xD83D, 0xDCCA] @ lit '' Resumo de Problemas por Arquivo'' @
        [0x0A, 0x0A]) @
       (if \<forall>f \<in> set fs. summaryTable w f = None
        then lit ''Nenhum arquivo JavaScript encontrado para an'' @ [0xE1] @
             lit ''lise ou n'' @ [0xE3] @ lit ''o foi poss'' @ [0xED] @
             lit ''vel extrair os resumos das tabelas.'' @ [0x0A, 0x0A]
        else (lit ''Este '' @ [0xE9] @ lit '' o resumo de problemas extra'' @ [0xED] @
              lit ''dos automaticamente do feedback detalhado de cada arquivo. Use-o para priorizar corre'' @
              [0xE7, 0xF5] @ lit ''es:'' @ [0x0A, 0x0A]) @
          hd (map (\<lambda>f. lit ''### Resumo do Arquivo: '' @ [0x60] @ f @ [0x60, 0x0A] @
                      the (summaryTable w f) @ [0x0A])
            (filter (\<lambda>f. summaryTable w f \<noteq> None) fs)) @
          concat (map (\<lambda>e. 0x0A # e) (tl (map (\<lambda>f. lit ''### Resumo do Arquivo: '' @ [0x60] @ f @ [0x60, 0x0A] @
                      the (summaryTable w f) @ [0x0A])
            (filter (\<lambda>f. summaryTable w f \<noteq> None) fs)))))"
  by (simp only: report_framed [of w fs] entries_none [of w fs])
    (simp only: entries_spelled [of w fs])

lemma section_label:
  "\<exists>body. sections w [f] = lit ''## Arquivo: '' @ f @ [0x0A, 0x0A] @ body @ [0x0A, 0x0A]"
proof (cases "snd (analyzeFile w f [])")
  case (Inl e)
  then have "sections w [f] =
      lit ''## Arquivo: '' @ f @ [0x0A, 0x0A] @ (lit ''**Erro ao analisar**: '' @ e) @ [0x0A, 0x0A]"
    by (simp add: sections_single error_section_def section_head_def)
  then show ?thesis by blast
next
  case (Inr full_feedback)
  show ?thesis
  proof (cases full_feedback)
    case None
    with Inr have "sections w [f] =
        lit ''## Arquivo: '' @ f @ [0x0A, 0x0A] @
        (toString None @ [0x0A, 0x0A] @ section_head f @
         lit ''**Erro ao analisar**: '' @ msg_TypeError) @ [0x0A, 0x0A]"
      by (simp add: sections_single success_section_def error_section_def section_head_def)
    then show ?thesis by blast
  next
    case (Some fb)
    with Inr have "sections w [f] = lit ''## Arquivo: '' @ f @ [0x0A, 0x0A] @ fb @ [0x0A, 0x0A]"
      by (simp add: sections_single success_section_def section_head_def toString_def)
    then show ?thesis by blast
  qed
qed

lemma section_text:
  "snd (analyzeFile w f []) = Inr (Some text) \<Longrightarrow>
   sections w [f] = lit ''## Arquivo: '' @ f @ [0x0A, 0x0A] @ text @ [0x0A, 0x0A]"
  by (simp add: sections_single success_section_def section_head_def toString_def)

text \<open>
  C7: the report of a run that completes is the title line, the sections of the files, the
  rule, the summary heading and then the summary.  When no table was extracted, and so
  when no file was discovered, the summary is the placeholder line.  When a table was
  extracted for at least one file, the summary is the introductory line and the entries of
  the files with a table, in the order the files were processed and with a line break
  between two entries; each entry is the sub-heading that names its file, the table and a
  line break.
\<close>

theorem consolidated_summary:
  assumes "main w = (tr, Inr ())" and "snd (walk (lit ''src'') (src w) [] []) = Inr jsFiles"
  shows "written tr =
     [(lit ''reports/ai-code-review.md'',
       (lit ''# Relat'' @ [0xF3] @ lit ''rio de Revis'' @ [0xE3] @ lit ''o AI '' @ [0x2013] @
        lit '' Gemini'' @ [0x0A, 0x0A]) @
       sections w jsFiles @
       ([0x0A] @ lit ''---'' @ [0x0A, 0x0A]) @
       (lit ''## '' @ [0xD83D, 0xDCCA] @ lit '' Resumo de Problemas por Arquivo'' @
        [0x0A, 0x0A]) @
       (if \<forall>f \<in> set jsFiles. summaryTable w f = None
        then lit ''Nenhum arquivo JavaScript encontrado para an'' @ [0xE1] @
             lit ''lise ou n'' @ [0xE3] @ lit ''o foi poss'' @ [0xED] @
             lit ''vel extrair os resumos das tabelas.'' @ [0x0A, 0x0A]
        else (lit ''Este '' @ [0xE9] @ lit '' o resumo de problemas extra'' @ [0xED] @
              lit ''dos automaticamente do feedback detalhado de cada arquivo. Use-o para priorizar corre'' @
              [0xE7, 0xF5] @ lit ''es:'' @ [0x0A, 0x0A]) @
          hd (map (\<lambda>f. lit ''### Resumo do Arquivo: '' @ [0x60] @ f @ [0x60, 0x0A] @
                      the (summaryTable w f) @ [0x0A])
            (filter (\<lambda>f. summaryTable w f \<noteq> None) jsFiles)) @
          concat (map (\<lambda>e. 0x0A # e) (tl (map (\<lambda>f. lit ''### Resumo do Arquivo: '' @ [0x60] @ f @ [0x60, 0x0A] @
                      the (summaryTable w f) @ [0x0A])
            (filter (\<lambda>f. summaryTable w f \<noteq> None) jsFiles))))))]"
  using completed_written [OF assms]
  by (simp only: report_spelled [of w jsFiles] report_path_def)

lemma script_completed:
  "main w = (tr, Inr ()) \<Longrightarrow> script w = (tr, 0)"
  by (simp add: script_def)

lemma script_failed:
  "main w = (tr, Inl e) \<Longrightarrow>
   script w = (tr @ [ConsoleError msg_fatal (if e \<noteq> [] then Message e else ErrorObject),
                     ProcessExit 1], 1)"
  by (simp add: script_def)

lemma run_completes:
  assumes k: "\<not> falsy (GEMINI_API_KEY w)"
    and wk: "snd (walk (lit ''src'') (src w) [] []) = Inr jsFiles"
    and d: "existsSync w (lit ''reports'') \<or> mkdirSync w (lit ''reports'') = None"
    and wr: "writeFileSync w report_path (report_of w jsFiles) = None"
  shows "snd (script w) = 0 \<and> snd (main w) = Inr () \<and>
         written (fst (script w)) = [(report_path, report_of w jsFiles)]"
proof -
  obtain tr0 where w0: "walk (lit ''src'') (src w) [] [] = (tr0, Inr jsFiles)"
    using wk by (cases "walk (lit ''src'') (src w) [] []") simp
  from main_run [OF k w0 d] wr obtain tr where m: "main w = (tr, Inr ())"
    by simp
  from completed_written [OF m wk] script_completed [OF m] m show ?thesis
    by simp
qed


lemma world0_key: "\<not> falsy (GEMINI_API_KEY world0)"
  by (simp add: world0_def falsy_def lit_def)

lemma world0_walk:
  "snd (walk (lit ''src'') (src world0) [] []) =
     Inr ([lit ''src/a.js''] @ lit ''src/lib/b.js'' # [lit ''src/z.js''])"
  by (simp add: world0_def tree0_def tree0_files_def lit_def path_join_def endsWith_def Let_def)

lemma world0_dir:
  "existsSync world0 (lit ''reports'') \<or> mkdirSync world0 (lit ''reports'') = None"
  by (simp add: world0_def)

lemma world0_write: "\<forall>d. writeFileSync world0 report_path d = None"
  by (simp add: world0_def)

lemma world0_unreadable:
  "readFileSync world0 (lit ''src/lib/b.js'') = Inl (lit ''EACCES'') \<or>
   (\<exists>code. readFileSync world0 (lit ''src/lib/b.js'') = Inr code \<and>
      generateContent world0 (lit ''gemini-2.5-flash'') (trim (prompt_head @ code @ prompt_tail)) =
        Inl (lit ''EACCES''))"
  by (simp add: world0_def)

lemma world0_completes: "snd (main world0) = Inr ()"
  using run_completes [OF world0_key world0_walk world0_dir] world0_write by simp


lemma world0_tables:
  "summaryTable world0 (lit ''src/a.js'') = extractTable feedback_table"
  "summaryTable world0 (lit ''src/lib/b.js'') = None"
  "summaryTable world0 (lit ''src/z.js'') = extractTable feedback_table"
  by (simp_all add: summaryTable_def analyzeFile_def Let_def world0_def falsy_def lit_def)


lemma feedback_table_extract: "extractTable feedback_table \<noteq> None"
  by (simp add: feedback_table_def extractTable_def indexOf_def substring_def
      tableStartMarker_def tableRegex_def tableRow_def Plus_def lit_def)


lemma world_empty_walk:
  "snd (walk (lit ''src'') (src (world0 \<lparr> src := Dir [] \<rparr>)) [] []) = Inr []"
  by simp


lemma world1_walk:
  "snd (walk (lit ''src'') (src world1) [] []) =
     Inr [lit ''src/a.js'', lit ''src/lib/b.js'', lit ''src/z.js'']"
  by (simp add: world1_def world0_def lit_def path_join_def endsWith_def Let_def)

text \<open>What \<open>world0\<close> gives: the reviews, the sections, the entries and the report.\<close>

lemma world0_analysis:
  "snd (analyzeFile world0 (lit ''src/a.js'') []) = Inr (Some feedback_table)"
  "snd (analyzeFile world0 (lit ''src/lib/b.js'') []) = Inl (lit ''EACCES'')"
  "snd (analyzeFile world0 (lit ''src/z.js'') []) = Inr (Some feedback_table)"
  by (simp_all add: analyzeFile_def Let_def world0_def falsy_def lit_def)

lemma feedback_table_extracted:
  "extractTable feedback_table =
     Some (lit ''| Problema Principal | Local/Linha Sugerida |'' @ [0x0A] @ lit ''|---|---|'' @
          [0x0A] @ lit ''|'')"
  by (simp add: feedback_table_def extractTable_def indexOf_def substring_def
      tableStartMarker_def tableRegex_def tableRow_def Plus_def lit_def)

lemma world0_sections:
  "sections world0 [lit ''src/a.js''] =
     lit ''## Arquivo: '' @ lit ''src/a.js'' @ [0x0A, 0x0A] @ feedback_table @
       [0x0A, 0x0A]"
  "sections world0 [lit ''src/lib/b.js''] =
     lit ''## Arquivo: '' @ lit ''src/lib/b.js'' @ [0x0A, 0x0A] @
       lit ''**Erro ao analisar**: '' @ lit ''EACCES'' @ [0x0A, 0x0A]"
  "sections world0 [lit ''src/z.js''] =
     lit ''## Arquivo: '' @ lit ''src/z.js'' @ [0x0A, 0x0A] @ feedback_table @
       [0x0A, 0x0A]"
  by (simp_all add: sections_single world0_analysis success_section_def error_section_def
      section_head_def toString_def)

lemma world0_entries:
  "entries world0 [lit ''src/a.js''] =
     [lit ''### Resumo do Arquivo: '' @ [0x60] @ lit ''src/a.js'' @ [0x60, 0x0A] @
       lit ''| Problema Principal | Local/Linha Sugerida |'' @ [0x0A] @ lit ''|---|---|'' @
       [0x0A] @ lit ''|'' @ [0x0A]]"
  "entries world0 [lit ''src/lib/b.js''] = []"
  "entries world0 [lit ''src/z.js''] =
     [lit ''### Resumo do Arquivo: '' @ [0x60] @ lit ''src/z.js'' @ [0x60, 0x0A] @
       lit ''| Problema Principal | Local/Linha Sugerida |'' @ [0x0A] @ lit ''|---|---|'' @
       [0x0A] @ lit ''|'' @ [0x0A]]"
  using extracted_trim [OF feedback_table_extracted]
  by (simp_all add: entries_single world0_tables feedback_table_extracted resumo_entry_def)

lemma world0_report:
  "report_of world0 [lit ''src/a.js'', lit ''src/lib/b.js'', lit ''src/z.js''] =
       (lit ''# Relat'' @ [0xF3] @ lit ''rio de Revis'' @ [0xE3] @ lit ''o AI '' @ [0x2013] @
        lit '' Gemini'' @ [0x0A, 0x0A]) @
       (lit ''## Arquivo: '' @ lit ''src/a.js'' @ [0x0A, 0x0A] @ feedback_table @
        [0x0A, 0x0A]) @
       (lit ''## Arquivo: '' @ lit ''src/lib/b.js'' @ [0x0A, 0x0A] @
        lit ''**Erro ao analisar**: '' @ lit ''EACCES'' @ [0x0A, 0x0A]) @
       (lit ''## Arquivo: '' @ lit ''src/z.js'' @ [0x0A, 0x0A] @ feedback_table @
        [0x0A, 0x0A]) @
       ([0x0A] @ lit ''---'' @ [0x0A, 0x0A]) @
       (lit ''## '' @ [0xD83D, 0xDCCA] @ lit '' Resumo de Problemas por Arquivo'' @
        [0x0A, 0x0A]) @
       (lit ''Este '' @ [0xE9] @ lit '' o resumo de problemas extra'' @ [0xED] @
        lit ''dos automaticamente do feedback detalhado de cada arquivo. Use-o para priorizar corre'' @
        [0xE7, 0xF5] @ lit ''es:'' @ [0x0A, 0x0A]) @
       (lit ''### Resumo do Arquivo: '' @ [0x60] @ lit ''src/a.js'' @ [0x60, 0x0A] @
        lit ''| Problema Principal | Local/Linha Sugerida |'' @ [0x0A] @ lit ''|---|---|'' @
        [0x0A] @ lit ''|'' @ [0x0A]) @
       [0x0A] @
       (lit ''### Resumo do Arquivo: '' @ [0x60] @ lit ''src/z.js'' @ [0x60, 0x0A] @
        lit ''| Problema Principal | Local/Linha Sugerida |'' @ [0x0A] @ lit ''|---|---|'' @
        [0x0A] @ lit ''|'' @ [0x0A])"
proof -
  have s: "sections world0 [lit ''src/a.js'', lit ''src/lib/b.js'', lit ''src/z.js''] =
      sections world0 [lit ''src/a.js''] @ sections world0 [lit ''src/lib/b.js''] @
      sections world0 [lit ''src/z.js'']"
    using loop_Cons(2) [of world0 "lit ''src/a.js''" "[lit ''src/lib/b.js'', lit ''src/z.js'']"]
      loop_Cons(2) [of world0 "lit ''src/lib/b.js''" "[lit ''src/z.js'']"]
    by simp
  have e: "entries world0 [lit ''src/a.js'', lit ''src/lib/b.js'', lit ''src/z.js''] =
      entries world0 [lit ''src/a.js''] @ entries world0 [lit ''src/lib/b.js''] @
      entries world0 [lit ''src/z.js'']"
    using loop_Cons(3) [of world0 "lit ''src/a.js''" "[lit ''src/lib/b.js'', lit ''src/z.js'']"]
      loop_Cons(3) [of world0 "lit ''src/lib/b.js''" "[lit ''src/z.js'']"]
    by simp
  show ?thesis
    by (simp add: report_of_def s e world0_sections world0_entries tabelaGeral_def
        report_title_def summary_rule_def summary_heading_def summary_intro_def)
qed

theorem consolidated_summary_witness:
  "main world0 = (fst (main world0), Inr ()) \<and>
   snd (walk (lit ''src'') (src world0) [] []) =
     Inr [lit ''src/a.js'', lit ''src/lib/b.js'', lit ''src/z.js''] \<and>
   written (fst (main world0)) =
     [(lit ''reports/ai-code-review.md'',
       (lit ''# Relat'' @ [0xF3] @ lit ''rio de Revis'' @ [0xE3] @ lit ''o AI '' @ [0x2013] @
        lit '' Gemini'' @ [0x0A, 0x0A]) @
       (lit ''## Arquivo: '' @ lit ''src/a.js'' @ [0x0A, 0x0A] @ feedback_table @
        [0x0A, 0x0A]) @
       (lit ''## Arquivo: '' @ lit ''src/lib/b.js'' @ [0x0A, 0x0A] @
        lit ''**Erro ao analisar**: '' @ lit ''EACCES'' @ [0x0A, 0x0A]) @
       (lit ''## Arquivo: '' @ lit ''src/z.js'' @ [0x0A, 0x0A] @ feedback_table @
        [0x0A, 0x0A]) @
       ([0x0A] @ lit ''---'' @ [0x0A, 0x0A]) @
       (lit ''## '' @ [0xD83D, 0xDCCA] @ lit '' Resumo de Problemas por Arquivo'' @
        [0x0A, 0x0A]) @
       (lit ''Este '' @ [0xE9] @ lit '' o resumo de problemas extra'' @ [0xED] @
        lit ''dos automaticamente do feedback detalhado de cada arquivo. Use-o para priorizar corre'' @
        [0xE7, 0xF5] @ lit ''es:'' @ [0x0A, 0x0A]) @
       (lit ''### Resumo do Arquivo: '' @ [0x60] @ lit ''src/a.js'' @ [0x60, 0x0A] @
        lit ''| Problema Principal | Local/Linha Sugerida |'' @ [0x0A] @ lit ''|---|---|'' @
        [0x0A] @ lit ''|'' @ [0x0A]) @
       [0x0A] @
       (lit ''### Resumo do Arquivo: '' @ [0x60] @ lit ''src/z.js'' @ [0x60, 0x0A] @
        lit ''| Problema Principal | Local/Linha Sugerida |'' @ [0x0A] @ lit ''|---|---|'' @
        [0x0A] @ lit ''|'' @ [0x0A]))]"
proof -
  let ?fs = "[lit ''src/a.js'', lit ''src/lib/b.js'', lit ''src/z.js'']"
  have m: "main world0 = (fst (main world0), Inr ())"
    using world0_completes by (cases "main world0") simp
  have w: "snd (walk (lit ''src'') (src world0) [] []) = Inr ?fs"
    using world0_walk by simp
  have "written (fst (main world0)) = [(report_path, report_of world0 ?fs)]"
    using consolidated_summary [OF m w]
    by (simp only: report_spelled [of world0 ?fs] report_path_def)
  then have "written (fst (main world0)) =
     [(lit ''reports/ai-code-review.md'',
       (lit ''# Relat'' @ [0xF3] @ lit ''rio de Revis'' @ [0xE3] @ lit ''o AI '' @ [0x2013] @
        lit '' Gemini'' @ [0x0A, 0x0A]) @
       (lit ''## Arquivo: '' @ lit ''src/a.js'' @ [0x0A, 0x0A] @ feedback_table @
        [0x0A, 0x0A]) @
       (lit ''## Arquivo: '' @ lit ''src/lib/b.js'' @ [0x0A, 0x0A] @
        lit ''**Erro ao analisar**: '' @ lit ''EACCES'' @ [0x0A, 0x0A]) @
       (lit ''## Arquivo: '' @ lit ''src/z.js'' @ [0x0A, 0x0A] @ feedback_table @
        [0x0A, 0x0A]) @
       ([0x0A] @ lit ''---'' @ [0x0A, 0x0A]) @
       (lit ''## '' @ [0xD83D, 0xDCCA] @ lit '' Resumo de Problemas por Arquivo'' @
        [0x0A, 0x0A]) @
       (lit ''Este '' @ [0xE9] @ lit '' o resumo de problemas extra'' @ [0xED] @
        lit ''dos automaticamente do feedback detalhado de cada arquivo. Use-o para priorizar corre'' @
        [0xE7, 0xF5] @ lit ''es:'' @ [0x0A, 0x0A]) @
       (lit ''### Resumo do Arquivo: '' @ [0x60] @ lit ''src/a.js'' @ [0x60, 0x0A] @
        lit ''| Problema Principal | Local/Linha Sugerida |'' @ [0x0A] @ lit ''|---|---|'' @
        [0x0A] @ lit ''|'' @ [0x0A]) @
       [0x0A] @
       (lit ''### Resumo do Arquivo: '' @ [0x60] @ lit ''src/z.js'' @ [0x60, 0x0A] @
        lit ''| Problema Principal | Local/Linha Sugerida |'' @ [0x0A] @ lit ''|---|---|'' @
        [0x0A] @ lit ''|'' @ [0x0A]))]"
    by (simp only: world0_report report_path_def)
  with m w show ?thesis
    by blast
qed

text \<open>
  C6: with the key present, discovery successful, the report directory present or
  created and the report written, the exit status is 0 whatever reading the files and the
  review service give; whenever \<open>main\<close> throws, the script prints the error and the exit
  status is 1; a missing \<open>src\<close> makes \<open>main\<close> throw at the first \<open>readdirSync\<close>, and no
  report is written.
\<close>

theorem exit_status:
  "(\<not> falsy (GEMINI_API_KEY w) \<longrightarrow>
      snd (walk (lit ''src'') (src w) [] []) = Inr jsFiles \<longrightarrow>
      (existsSync w (lit ''reports'') \<or> mkdirSync w (lit ''reports'') = None) \<longrightarrow>
      (\<forall>d. writeFileSync w report_path d = None) \<longrightarrow>
      snd (script (w \<lparr> readFileSync := rf, generateContent := gc \<rparr>)) = 0 \<and>
      written (fst (script (w \<lparr> readFileSync := rf, generateContent := gc \<rparr>))) =
        [(report_path, report_of (w \<lparr> readFileSync := rf, generateContent := gc \<rparr>) jsFiles)]) \<and>
   (snd (main w) = Inl e \<longrightarrow>
      script w =
        (fst (main w) @
           [ConsoleError msg_fatal (if e \<noteq> [] then Message e else ErrorObject),
            ProcessExit 1], 1)) \<and>
   (\<not> falsy (GEMINI_API_KEY w) \<longrightarrow> src w = NoEntry e \<longrightarrow>
      script w =
        ([ReaddirSync (lit ''src''),
          ConsoleError msg_fatal (if e \<noteq> [] then Message e else ErrorObject),
          ProcessExit 1], 1))"
proof -
  let ?w = "w \<lparr> readFileSync := rf, generateContent := gc \<rparr>"
  have completes: "snd (script ?w) = 0 \<and>
      written (fst (script ?w)) = [(report_path, report_of ?w jsFiles)]"
    if "\<not> falsy (GEMINI_API_KEY w)"
      and "snd (walk (lit ''src'') (src w) [] []) = Inr jsFiles"
      and "existsSync w (lit ''reports'') \<or> mkdirSync w (lit ''reports'') = None"
      and "\<forall>d. writeFileSync w report_path d = None"
    using that run_completes [of ?w jsFiles] by simp
  have throws: "script w =
        (fst (main w) @
           [ConsoleError msg_fatal (if e \<noteq> [] then Message e else ErrorObject),
            ProcessExit 1], 1)"
    if "snd (main w) = Inl e"
  proof -
    from that have "main w = (fst (main w), Inl e)"
      by (cases "main w") simp
    then show ?thesis
      by (rule script_failed)
  qed
  have no_root: "script w =
        ([ReaddirSync (lit ''src''),
          ConsoleError msg_fatal (if e \<noteq> [] then Message e else ErrorObject),
          ProcessExit 1], 1)"
    if "\<not> falsy (GEMINI_API_KEY w)" and "src w = NoEntry e"
  proof -
    from that have "main w = ([ReaddirSync (lit ''src'')], Inl e)"
      by (simp add: main_def)
    then show ?thesis
      using script_failed by fastforce
  qed
  from completes throws no_root show ?thesis
    by blast
qed

theorem exit_status_witness:
  "\<not> falsy (GEMINI_API_KEY world0) \<and>
   snd (walk (lit ''src'') (src world0) [] []) =
     Inr [lit ''src/a.js'', lit ''src/lib/b.js'', lit ''src/z.js''] \<and>
   (existsSync world0 (lit ''reports'') \<or> mkdirSync world0 (lit ''reports'') = None) \<and>
   (\<forall>d. writeFileSync world0 report_path d = None) \<and>
   snd (script (world0 \<lparr> readFileSync := (\<lambda>p. Inl (lit ''EIO'')),
                           generateContent := (\<lambda>m p. Inl (lit ''500'')) \<rparr>)) = 0 \<and>
   src (world0 \<lparr> src := NoEntry (lit ''ENOENT'') \<rparr>) = NoEntry (lit ''ENOENT'') \<and>
   snd (main (world0 \<lparr> src := NoEntry (lit ''ENOENT'') \<rparr>)) = Inl (lit ''ENOENT'') \<and>
   script (world0 \<lparr> src := NoEntry (lit ''ENOENT'') \<rparr>) =
     ([ReaddirSync (lit ''src''), ConsoleError msg_fatal (Message (lit ''ENOENT'')),
       ProcessExit 1], 1)"
proof -
  let ?fs = "[lit ''src/a.js'', lit ''src/lib/b.js'', lit ''src/z.js'']"
  let ?w = "world0 \<lparr> src := NoEntry (lit ''ENOENT'') \<rparr>"
  have w: "snd (walk (lit ''src'') (src world0) [] []) = Inr ?fs"
    using world0_walk by simp
  have k: "\<not> falsy (GEMINI_API_KEY ?w)"
    using world0_key by simp
  have s: "src ?w = NoEntry (lit ''ENOENT'')"
    by simp
  have m: "snd (main ?w) = Inl (lit ''ENOENT'')"
    using k by (simp add: main_def)
  have ne: "lit ''ENOENT'' \<noteq> ([] :: jsstring)"
    by (simp add: lit_def)
  have p1: "snd (script (world0 \<lparr> readFileSync := (\<lambda>p. Inl (lit ''EIO'')),
                           generateContent := (\<lambda>m p. Inl (lit ''500'')) \<rparr>)) = 0"
    using exit_status [where w = world0 and jsFiles = ?fs
          and rf = "\<lambda>p. Inl (lit ''EIO'')" and gc = "\<lambda>m p. Inl (lit ''500'')"]
      world0_key w world0_dir world0_write
    by blast
  have "script ?w =
     ([ReaddirSync (lit ''src''),
       ConsoleError msg_fatal (if lit ''ENOENT'' \<noteq> [] then Message (lit ''ENOENT'') else ErrorObject),
       ProcessExit 1], 1)"
    using exit_status [where w = ?w and e = "lit ''ENOENT''"] k s
    by blast
  then have p3: "script ?w =
     ([ReaddirSync (lit ''src''), ConsoleError msg_fatal (Message (lit ''ENOENT'')),
       ProcessExit 1], 1)"
    using ne by simp
  from world0_key w world0_dir world0_write p1 s m p3 show ?thesis
    by blast
qed

text \<open>
  C10: whatever a run writes, it writes once, to \<open>reports/ai-code-review.md\<close>, and the text
  begins with the title line and a blank line, goes on with the sections of the discovered
  files and ends with the rule line \<open>---\<close> between blank lines and one summary block: the
  summary heading and either the placeholder line or the introductory line and the
  entries.  With no file discovered the report is still written: title line, rule, heading
  and placeholder.
\<close>

theorem report_frame:
  "((p, d) \<in> set (written (fst (script w))) \<longrightarrow>
      p = lit ''reports/ai-code-review.md'' \<and> written (fst (script w)) = [(p, d)] \<and>
      (\<exists>jsFiles. snd (walk (lit ''src'') (src w) [] []) = Inr jsFiles \<and>
         d =
             (lit ''# Relat'' @ [0xF3] @ lit ''rio de Revis'' @ [0xE3] @ lit ''o AI '' @
              [0x2013] @ lit '' Gemini'' @ [0x0A, 0x0A]) @
             sections w jsFiles @
             ([0x0A] @ lit ''---'' @ [0x0A, 0x0A]) @
             (lit ''## '' @ [0xD83D, 0xDCCA] @ lit '' Resumo de Problemas por Arquivo'' @
              [0x0A, 0x0A]) @
             (if entries w jsFiles = []
              then lit ''Nenhum arquivo JavaScript encontrado para an'' @ [0xE1] @
                   lit ''lise ou n'' @ [0xE3] @ lit ''o foi poss'' @ [0xED] @
                   lit ''vel extrair os resumos das tabelas.'' @ [0x0A, 0x0A]
              else (lit ''Este '' @ [0xE9] @ lit '' o resumo de problemas extra'' @ [0xED] @
                    lit ''dos automaticamente do feedback detalhado de cada arquivo. Use-o para priorizar corre'' @
                    [0xE7, 0xF5] @ lit ''es:'' @ [0x0A, 0x0A]) @
                hd (entries w jsFiles) @
                concat (map (\<lambda>e. 0x0A # e) (tl (entries w jsFiles)))))) \<and>
   (\<not> falsy (GEMINI_API_KEY w) \<longrightarrow>
      snd (walk (lit ''src'') (src w) [] []) = Inr [] \<longrightarrow>
      (existsSync w (lit ''reports'') \<or> mkdirSync w (lit ''reports'') = None) \<longrightarrow>
      written (fst (script w)) =
        [(lit ''reports/ai-code-review.md'',
         (lit ''# Relat'' @ [0xF3] @ lit ''rio de Revis'' @ [0xE3] @ lit ''o AI '' @
          [0x2013] @ lit '' Gemini'' @ [0x0A, 0x0A]) @
         ([0x0A] @ lit ''---'' @ [0x0A, 0x0A]) @
         (lit ''## '' @ [0xD83D, 0xDCCA] @ lit '' Resumo de Problemas por Arquivo'' @
          [0x0A, 0x0A]) @
         (lit ''Nenhum arquivo JavaScript encontrado para an'' @ [0xE1] @ lit ''lise ou n'' @
          [0xE3] @ lit ''o foi poss'' @ [0xED] @ lit ''vel extrair os resumos das tabelas.'' @
          [0x0A, 0x0A]))])"
proof -
  have one: "p = lit ''reports/ai-code-review.md'' \<and> written (fst (script w)) = [(p, d)] \<and>
      (\<exists>jsFiles. snd (walk (lit ''src'') (src w) [] []) = Inr jsFiles \<and>
         d =
             (lit ''# Relat'' @ [0xF3] @ lit ''rio de Revis'' @ [0xE3] @ lit ''o AI '' @
              [0x2013] @ lit '' Gemini'' @ [0x0A, 0x0A]) @
             sections w jsFiles @
             ([0x0A] @ lit ''---'' @ [0x0A, 0x0A]) @
             (lit ''## '' @ [0xD83D, 0xDCCA] @ lit '' Resumo de Problemas por Arquivo'' @
              [0x0A, 0x0A]) @
             (if entries w jsFiles = []
              then lit ''Nenhum arquivo JavaScript encontrado para an'' @ [0xE1] @
                   lit ''lise ou n'' @ [0xE3] @ lit ''o foi poss'' @ [0xED] @
                   lit ''vel extrair os resumos das tabelas.'' @ [0x0A, 0x0A]
              else (lit ''Este '' @ [0xE9] @ lit '' o resumo de problemas extra'' @ [0xED] @
                    lit ''dos automaticamente do feedback detalhado de cada arquivo. Use-o para priorizar corre'' @
                    [0xE7, 0xF5] @ lit ''es:'' @ [0x0A, 0x0A]) @
                hd (entries w jsFiles) @
                concat (map (\<lambda>e. 0x0A # e) (tl (entries w jsFiles)))))"
    if "(p, d) \<in> set (written (fst (script w)))"
  proof -
    from that have in_main: "(p, d) \<in> set (written (fst (main w)))"
      by (simp add: written_script)
    with written_main [of w] obtain jsFiles where
      wk: "snd (walk (lit ''src'') (src w) [] []) = Inr jsFiles" and
      wr: "written (fst (main w)) = [(report_path, report_of w jsFiles)]"
      by auto
    from in_main wr have pd: "p = report_path" "d = report_of w jsFiles"
      by simp_all
    from pd(2) have "d =
             (lit ''# Relat'' @ [0xF3] @ lit ''rio de Revis'' @ [0xE3] @ lit ''o AI '' @
              [0x2013] @ lit '' Gemini'' @ [0x0A, 0x0A]) @
             sections w jsFiles @
             ([0x0A] @ lit ''---'' @ [0x0A, 0x0A]) @
             (lit ''## '' @ [0xD83D, 0xDCCA] @ lit '' Resumo de Problemas por Arquivo'' @
              [0x0A, 0x0A]) @
             (if entries w jsFiles = []
              then lit ''Nenhum arquivo JavaScript encontrado para an'' @ [0xE1] @
                   lit ''lise ou n'' @ [0xE3] @ lit ''o foi poss'' @ [0xED] @
                   lit ''vel extrair os resumos das tabelas.'' @ [0x0A, 0x0A]
              else (lit ''Este '' @ [0xE9] @ lit '' o resumo de problemas extra'' @ [0xED] @
                    lit ''dos automaticamente do feedback detalhado de cada arquivo. Use-o para priorizar corre'' @
                    [0xE7, 0xF5] @ lit ''es:'' @ [0x0A, 0x0A]) @
                hd (entries w jsFiles) @
                concat (map (\<lambda>e. 0x0A # e) (tl (entries w jsFiles))))"
      by (simp only: report_framed [of w jsFiles])
    with wk pd(1) wr pd(2) show ?thesis
      by (auto simp: written_script report_path_def)
  qed
  have none: "written (fst (script w)) =
        [(lit ''reports/ai-code-review.md'',
         (lit ''# Relat'' @ [0xF3] @ lit ''rio de Revis'' @ [0xE3] @ lit ''o AI '' @
          [0x2013] @ lit '' Gemini'' @ [0x0A, 0x0A]) @
         ([0x0A] @ lit ''---'' @ [0x0A, 0x0A]) @
         (lit ''## '' @ [0xD83D, 0xDCCA] @ lit '' Resumo de Problemas por Arquivo'' @
          [0x0A, 0x0A]) @
         (lit ''Nenhum arquivo JavaScript encontrado para an'' @ [0xE1] @ lit ''lise ou n'' @
          [0xE3] @ lit ''o foi poss'' @ [0xED] @ lit ''vel extrair os resumos das tabelas.'' @
          [0x0A, 0x0A]))]"
    if k: "\<not> falsy (GEMINI_API_KEY w)"
      and wk: "snd (walk (lit ''src'') (src w) [] []) = Inr []"
      and dir: "existsSync w (lit ''reports'') \<or> mkdirSync w (lit ''reports'') = None"
  proof -
    obtain tr0 where w0: "walk (lit ''src'') (src w) [] [] = (tr0, Inr [])"
      using wk by (cases "walk (lit ''src'') (src w) [] []") simp
    have "written tr0 = []"
      using written_walk(1) [of "lit ''src''" "src w" "[]" "[]"] by (simp add: w0)
    with main_run [OF k w0 dir]
    have "written (fst (main w)) = [(report_path, report_of w [])]"
      by (simp add: written_append written_calls)
    then show ?thesis
      by (simp add: written_script report_of_def loop_Nil tabelaGeral_def report_path_def
          report_title_def summary_rule_def summary_heading_def summary_placeholder_def)
  qed
  from one none show ?thesis
    by blast
qed

theorem report_frame_witness:
  "(lit ''reports/ai-code-review.md'',
       (lit ''# Relat'' @ [0xF3] @ lit ''rio de Revis'' @ [0xE3] @ lit ''o AI '' @ [0x2013] @
        lit '' Gemini'' @ [0x0A, 0x0A]) @
       (lit ''## Arquivo: '' @ lit ''src/a.js'' @ [0x0A, 0x0A] @ feedback_table @
        [0x0A, 0x0A]) @
       (lit ''## Arquivo: '' @ lit ''src/lib/b.js'' @ [0x0A, 0x0A] @
        lit ''**Erro ao analisar**: '' @ lit ''EACCES'' @ [0x0A, 0x0A]) @
       (lit ''## Arquivo: '' @ lit ''src/z.js'' @ [0x0A, 0x0A] @ feedback_table @
        [0x0A, 0x0A]) @
       ([0x0A] @ lit ''---'' @ [0x0A, 0x0A]) @
       (lit ''## '' @ [0xD83D, 0xDCCA] @ lit '' Resumo de Problemas por Arquivo'' @
        [0x0A, 0x0A]) @
       (lit ''Este '' @ [0xE9] @ lit '' o resumo de problemas extra'' @ [0xED] @
        lit ''dos automaticamente do feedback detalhado de cada arquivo. Use-o para priorizar corre'' @
        [0xE7, 0xF5] @ lit ''es:'' @ [0x0A, 0x0A]) @
       (lit ''### Resumo do Arquivo: '' @ [0x60] @ lit ''src/a.js'' @ [0x60, 0x0A] @
        lit ''| Problema Principal | Local/Linha Sugerida |'' @ [0x0A] @ lit ''|---|---|'' @
        [0x0A] @ lit ''|'' @ [0x0A]) @
       [0x0A] @
       (lit ''### Resumo do Arquivo: '' @ [0x60] @ lit ''src/z.js'' @ [0x60, 0x0A] @
        lit ''| Problema Principal | Local/Linha Sugerida |'' @ [0x0A] @ lit ''|---|---|'' @
        [0x0A] @ lit ''|'' @ [0x0A]))
     \<in> set (written (fst (script world0))) \<and>
   written (fst (script world0)) =
     [(lit ''reports/ai-code-review.md'',
       (lit ''# Relat'' @ [0xF3] @ lit ''rio de Revis'' @ [0xE3] @ lit ''o AI '' @ [0x2013] @
        lit '' Gemini'' @ [0x0A, 0x0A]) @
       (lit ''## Arquivo: '' @ lit ''src/a.js'' @ [0x0A, 0x0A] @ feedback_table @
        [0x0A, 0x0A]) @
       (lit ''## Arquivo: '' @ lit ''src/lib/b.js'' @ [0x0A, 0x0A] @
        lit ''**Erro ao analisar**: '' @ lit ''EACCES'' @ [0x0A, 0x0A]) @
       (lit ''## Arquivo: '' @ lit ''src/z.js'' @ [0x0A, 0x0A] @ feedback_table @
        [0x0A, 0x0A]) @
       ([0x0A] @ lit ''---'' @ [0x0A, 0x0A]) @
       (lit ''## '' @ [0xD83D, 0xDCCA] @ lit '' Resumo de Problemas por Arquivo'' @
        [0x0A, 0x0A]) @
       (lit ''Este '' @ [0xE9] @ lit '' o resumo de problemas extra'' @ [0xED] @
        lit ''dos automaticamente do feedback detalhado de cada arquivo. Use-o para priorizar corre'' @
        [0xE7, 0xF5] @ lit ''es:'' @ [0x0A, 0x0A]) @
       (lit ''### Resumo do Arquivo: '' @ [0x60] @ lit ''src/a.js'' @ [0x60, 0x0A] @
        lit ''| Problema Principal | Local/Linha Sugerida |'' @ [0x0A] @ lit ''|---|---|'' @
        [0x0A] @ lit ''|'' @ [0x0A]) @
       [0x0A] @
       (lit ''### Resumo do Arquivo: '' @ [0x60] @ lit ''src/z.js'' @ [0x60, 0x0A] @
        lit ''| Problema Principal | Local/Linha Sugerida |'' @ [0x0A] @ lit ''|---|---|'' @
        [0x0A] @ lit ''|'' @ [0x0A]))] \<and>
   \<not> falsy (GEMINI_API_KEY (world0 \<lparr> src := Dir [] \<rparr>)) \<and>
   snd (walk (lit ''src'') (src (world0 \<lparr> src := Dir [] \<rparr>)) [] []) = Inr [] \<and>
   (existsSync (world0 \<lparr> src := Dir [] \<rparr>) (lit ''reports'') \<or>
    mkdirSync (world0 \<lparr> src := Dir [] \<rparr>) (lit ''reports'') = None) \<and>
   written (fst (script (world0 \<lparr> src := Dir [] \<rparr>))) =
     [(lit ''reports/ai-code-review.md'',
         (lit ''# Relat'' @ [0xF3] @ lit ''rio de Revis'' @ [0xE3] @ lit ''o AI '' @
          [0x2013] @ lit '' Gemini'' @ [0x0A, 0x0A]) @
         ([0x0A] @ lit ''---'' @ [0x0A, 0x0A]) @
         (lit ''## '' @ [0xD83D, 0xDCCA] @ lit '' Resumo de Problemas por Arquivo'' @
          [0x0A, 0x0A]) @
         (lit ''Nenhum arquivo JavaScript encontrado para an'' @ [0xE1] @ lit ''lise ou n'' @
          [0xE3] @ lit ''o foi poss'' @ [0xED] @ lit ''vel extrair os resumos das tabelas.'' @
          [0x0A, 0x0A]))]"
proof -
  let ?fs = "[lit ''src/a.js'', lit ''src/lib/b.js'', lit ''src/z.js'']"
  let ?e = "world0 \<lparr> src := Dir [] \<rparr>"
  let ?r = "
       (lit ''# Relat'' @ [0xF3] @ lit ''rio de Revis'' @ [0xE3] @ lit ''o AI '' @ [0x2013] @
        lit '' Gemini'' @ [0x0A, 0x0A]) @
       (lit ''## Arquivo: '' @ lit ''src/a.js'' @ [0x0A, 0x0A] @ feedback_table @
        [0x0A, 0x0A]) @
       (lit ''## Arquivo: '' @ lit ''src/lib/b.js'' @ [0x0A, 0x0A] @
        lit ''**Erro ao analisar**: '' @ lit ''EACCES'' @ [0x0A, 0x0A]) @
       (lit ''## Arquivo: '' @ lit ''src/z.js'' @ [0x0A, 0x0A] @ feedback_table @
        [0x0A, 0x0A]) @
       ([0x0A] @ lit ''---'' @ [0x0A, 0x0A]) @
       (lit ''## '' @ [0xD83D, 0xDCCA] @ lit '' Resumo de Problemas por Arquivo'' @
        [0x0A, 0x0A]) @
       (lit ''Este '' @ [0xE9] @ lit '' o resumo de problemas extra'' @ [0xED] @
        lit ''dos automaticamente do feedback detalhado de cada arquivo. Use-o para priorizar corre'' @
        [0xE7, 0xF5] @ lit ''es:'' @ [0x0A, 0x0A]) @
       (lit ''### Resumo do Arquivo: '' @ [0x60] @ lit ''src/a.js'' @ [0x60, 0x0A] @
        lit ''| Problema Principal | Local/Linha Sugerida |'' @ [0x0A] @ lit ''|---|---|'' @
        [0x0A] @ lit ''|'' @ [0x0A]) @
       [0x0A] @
       (lit ''### Resumo do Arquivo: '' @ [0x60] @ lit ''src/z.js'' @ [0x60, 0x0A] @
        lit ''| Problema Principal | Local/Linha Sugerida |'' @ [0x0A] @ lit ''|---|---|'' @
        [0x0A] @ lit ''|'' @ [0x0A])"
  have w: "snd (walk (lit ''src'') (src world0) [] []) = Inr ?fs"
    using world0_walk by simp
  have "written (fst (script world0)) = [(report_path, report_of world0 ?fs)]"
    using run_completes [OF world0_key w world0_dir] world0_write by simp
  then have i: "(lit ''reports/ai-code-review.md'', ?r) \<in> set (written (fst (script world0)))"
    by (simp only: world0_report report_path_def) simp
  have p1: "written (fst (script world0)) = [(lit ''reports/ai-code-review.md'', ?r)]"
    using report_frame [of "lit ''reports/ai-code-review.md''" ?r world0] i
    by blast
  have k: "\<not> falsy (GEMINI_API_KEY ?e)"
    using world0_key by simp
  have d: "existsSync ?e (lit ''reports'') \<or> mkdirSync ?e (lit ''reports'') = None"
    using world0_dir by simp
  have p2: "written (fst (script ?e)) =
     [(lit ''reports/ai-code-review.md'',
         (lit ''# Relat'' @ [0xF3] @ lit ''rio de Revis'' @ [0xE3] @ lit ''o AI '' @
          [0x2013] @ lit '' Gemini'' @ [0x0A, 0x0A]) @
         ([0x0A] @ lit ''---'' @ [0x0A, 0x0A]) @
         (lit ''## '' @ [0xD83D, 0xDCCA] @ lit '' Resumo de Problemas por Arquivo'' @
          [0x0A, 0x0A]) @
         (lit ''Nenhum arquivo JavaScript encontrado para an'' @ [0xE1] @ lit ''lise ou n'' @
          [0xE3] @ lit ''o foi poss'' @ [0xED] @ lit ''vel extrair os resumos das tabelas.'' @
          [0x0A, 0x0A]))]"
    using report_frame [of "[]" "[]" ?e] k d world_empty_walk
    by blast
  from i p1 k world_empty_walk d p2 show ?thesis
    by blast
qed

text \<open>
  C4: when reading a discovered file \<open>X\<close> or the review service fails for it, the run still
  completes with status 0, and its report holds the sections of the files before \<open>X\<close>, the
  section of \<open>X\<close> with the error message, and the sections of the files after \<open>X\<close>, each
  as it is without \<open>X\<close>; the summaries are those of the files before and after \<open>X\<close>.
  Every file after \<open>X\<close> has its section there, in order: the section starts with the label
  of the file and ends with a blank line, and when the review of the file gave a text, it
  is the label, that text and the blank line.
\<close>

theorem failed_review_recorded:
  assumes key: "\<not> falsy (GEMINI_API_KEY w)"
    and found: "snd (walk (lit ''src'') (src w) [] []) = Inr (before @ X # after)"
    and dir: "existsSync w (lit ''reports'') \<or> mkdirSync w (lit ''reports'') = None"
    and wr: "\<forall>d. writeFileSync w report_path d = None"
    and fails: "readFileSync w X = Inl message \<or>
      (\<exists>code. readFileSync w X = Inr code \<and>
         generateContent w (lit ''gemini-2.5-flash'') (trim (prompt_head @ code @ prompt_tail)) =
           Inl message)"
  shows "snd (script w) = 0 \<and>
     written (fst (script w)) =
       [(report_path,
         report_title @ sections w before @
         (lit ''## Arquivo: '' @ X @ [0x0A, 0x0A] @
          lit ''**Erro ao analisar**: '' @ message @ [0x0A, 0x0A]) @
         sections w after @ summary_rule @
         tabelaGeral (entries w before @ entries w after))] \<and>
     sections w after = concat (map (\<lambda>f. sections w [f]) after) \<and>
     (\<forall>f \<in> set after.
        (\<exists>body. sections w [f] =
           lit ''## Arquivo: '' @ f @ [0x0A, 0x0A] @ body @ [0x0A, 0x0A]) \<and>
        (\<forall>text. snd (analyzeFile w f []) = Inr (Some text) \<longrightarrow>
           sections w [f] = lit ''## Arquivo: '' @ f @ [0x0A, 0x0A] @ text @ [0x0A, 0x0A]))"
proof -
  from key fails have a: "snd (analyzeFile w X []) = Inl message"
    by (auto simp: analyzeFile_def Let_def)
  then have s: "sections w [X] = error_section X message"
    by (simp add: sections_single)
  from a have e: "entries w [X] = []"
    by (simp add: entries_single summaryTable_def)
  have "sections w (before @ X # after) =
      sections w before @ error_section X message @ sections w after"
    using loop_append(2) [of w before "X # after"] loop_Cons(2) [of w X after] s by simp
  moreover have "entries w (before @ X # after) = entries w before @ entries w after"
    using loop_append(3) [of w before "X # after"] loop_Cons(3) [of w X after] e by simp
  ultimately have "report_of w (before @ X # after) =
      report_title @ sections w before @
         (lit ''## Arquivo: '' @ X @ [0x0A, 0x0A] @
          lit ''**Erro ao analisar**: '' @ message @ [0x0A, 0x0A]) @
         sections w after @ summary_rule @
         tabelaGeral (entries w before @ entries w after)"
    by (simp add: report_of_def error_section_def section_head_def)
  with run_completes [OF key found dir] wr
  have run: "snd (script w) = 0 \<and>
     written (fst (script w)) =
       [(report_path,
         report_title @ sections w before @
         (lit ''## Arquivo: '' @ X @ [0x0A, 0x0A] @
          lit ''**Erro ao analisar**: '' @ message @ [0x0A, 0x0A]) @
         sections w after @ summary_rule @
         tabelaGeral (entries w before @ entries w after))]"
    by simp
  have each: "sections w after = concat (map (\<lambda>f. sections w [f]) after)"
    by (rule sections_concat)
  have label: "\<exists>body. sections w [f] =
      lit ''## Arquivo: '' @ f @ [0x0A, 0x0A] @ body @ [0x0A, 0x0A]" for f
    by (rule section_label)
  have given: "\<forall>text. snd (analyzeFile w f []) = Inr (Some text) \<longrightarrow>
      sections w [f] = lit ''## Arquivo: '' @ f @ [0x0A, 0x0A] @ text @ [0x0A, 0x0A]" for f
    using section_text [of w f] by blast
  from run each label given show ?thesis
    by blast
qed

theorem failed_review_recorded_witness:
  "\<not> falsy (GEMINI_API_KEY world0) \<and>
   snd (walk (lit ''src'') (src world0) [] []) =
     Inr ([lit ''src/a.js''] @ lit ''src/lib/b.js'' # [lit ''src/z.js'']) \<and>
   (existsSync world0 (lit ''reports'') \<or> mkdirSync world0 (lit ''reports'') = None) \<and>
   (\<forall>d. writeFileSync world0 report_path d = None) \<and>
   (readFileSync world0 (lit ''src/lib/b.js'') = Inl (lit ''EACCES'') \<or>
    (\<exists>code. readFileSync world0 (lit ''src/lib/b.js'') = Inr code \<and>
       generateContent world0 (lit ''gemini-2.5-flash'') (trim (prompt_head @ code @ prompt_tail)) =
         Inl (lit ''EACCES''))) \<and>
   snd (analyzeFile world0 (lit ''src/z.js'') []) = Inr (Some feedback_table) \<and>
   snd (script world0) = 0 \<and>
   sections world0 [lit ''src/z.js''] =
     lit ''## Arquivo: '' @ lit ''src/z.js'' @ [0x0A, 0x0A] @ feedback_table @
       [0x0A, 0x0A] \<and>
   written (fst (script world0)) =
     [(lit ''reports/ai-code-review.md'',
       (lit ''# Relat'' @ [0xF3] @ lit ''rio de Revis'' @ [0xE3] @ lit ''o AI '' @ [0x2013] @
        lit '' Gemini'' @ [0x0A, 0x0A]) @
       (lit ''## Arquivo: '' @ lit ''src/a.js'' @ [0x0A, 0x0A] @ feedback_table @
        [0x0A, 0x0A]) @
       (lit ''## Arquivo: '' @ lit ''src/lib/b.js'' @ [0x0A, 0x0A] @
        lit ''**Erro ao analisar**: '' @ lit ''EACCES'' @ [0x0A, 0x0A]) @
       (lit ''## Arquivo: '' @ lit ''src/z.js'' @ [0x0A, 0x0A] @ feedback_table @
        [0x0A, 0x0A]) @
       ([0x0A] @ lit ''---'' @ [0x0A, 0x0A]) @
       (lit ''## '' @ [0xD83D, 0xDCCA] @ lit '' Resumo de Problemas por Arquivo'' @
        [0x0A, 0x0A]) @
       (lit ''Este '' @ [0xE9] @ lit '' o resumo de problemas extra'' @ [0xED] @
        lit ''dos automaticamente do feedback detalhado de cada arquivo. Use-o para priorizar corre'' @
        [0xE7, 0xF5] @ lit ''es:'' @ [0x0A, 0x0A]) @
       (lit ''### Resumo do Arquivo: '' @ [0x60] @ lit ''src/a.js'' @ [0x60, 0x0A] @
        lit ''| Problema Principal | Local/Linha Sugerida |'' @ [0x0A] @ lit ''|---|---|'' @
        [0x0A] @ lit ''|'' @ [0x0A]) @
       [0x0A] @
       (lit ''### Resumo do Arquivo: '' @ [0x60] @ lit ''src/z.js'' @ [0x60, 0x0A] @
        lit ''| Problema Principal | Local/Linha Sugerida |'' @ [0x0A] @ lit ''|---|---|'' @
        [0x0A] @ lit ''|'' @ [0x0A]))]"
proof -
  note inst = failed_review_recorded [OF world0_key world0_walk world0_dir world0_write
      world0_unreadable]
  from inst have x: "snd (script world0) = 0"
    by blast
  have z: "lit ''src/z.js'' \<in> set [lit ''src/z.js'']"
    by simp
  from inst z world0_analysis(3)
  have sz: "sections world0 [lit ''src/z.js''] =
     lit ''## Arquivo: '' @ lit ''src/z.js'' @ [0x0A, 0x0A] @ feedback_table @
       [0x0A, 0x0A]"
    by blast
  from inst have "written (fst (script world0)) =
       [(report_path,
         report_title @ sections world0 [lit ''src/a.js''] @
         (lit ''## Arquivo: '' @ lit ''src/lib/b.js'' @ [0x0A, 0x0A] @
          lit ''**Erro ao analisar**: '' @ lit ''EACCES'' @ [0x0A, 0x0A]) @
         sections world0 [lit ''src/z.js''] @ summary_rule @
         tabelaGeral (entries world0 [lit ''src/a.js''] @ entries world0 [lit ''src/z.js'']))]"
    by blast
  then have r: "written (fst (script world0)) =
     [(lit ''reports/ai-code-review.md'',
       (lit ''# Relat'' @ [0xF3] @ lit ''rio de Revis'' @ [0xE3] @ lit ''o AI '' @ [0x2013] @
        lit '' Gemini'' @ [0x0A, 0x0A]) @
       (lit ''## Arquivo: '' @ lit ''src/a.js'' @ [0x0A, 0x0A] @ feedback_table @
        [0x0A, 0x0A]) @
       (lit ''## Arquivo: '' @ lit ''src/lib/b.js'' @ [0x0A, 0x0A] @
        lit ''**Erro ao analisar**: '' @ lit ''EACCES'' @ [0x0A, 0x0A]) @
       (lit ''## Arquivo: '' @ lit ''src/z.js'' @ [0x0A, 0x0A] @ feedback_table @
        [0x0A, 0x0A]) @
       ([0x0A] @ lit ''---'' @ [0x0A, 0x0A]) @
       (lit ''## '' @ [0xD83D, 0xDCCA] @ lit '' Resumo de Problemas por Arquivo'' @
        [0x0A, 0x0A]) @
       (lit ''Este '' @ [0xE9] @ lit '' o resumo de problemas extra'' @ [0xED] @
        lit ''dos automaticamente do feedback detalhado de cada arquivo. Use-o para priorizar corre'' @
        [0xE7, 0xF5] @ lit ''es:'' @ [0x0A, 0x0A]) @
       (lit ''### Resumo do Arquivo: '' @ [0x60] @ lit ''src/a.js'' @ [0x60, 0x0A] @
        lit ''| Problema Principal | Local/Linha Sugerida |'' @ [0x0A] @ lit ''|---|---|'' @
        [0x0A] @ lit ''|'' @ [0x0A]) @
       [0x0A] @
       (lit ''### Resumo do Arquivo: '' @ [0x60] @ lit ''src/z.js'' @ [0x60, 0x0A] @
        lit ''| Problema Principal | Local/Linha Sugerida |'' @ [0x0A] @ lit ''|---|---|'' @
        [0x0A] @ lit ''|'' @ [0x0A]))]"
    by (simp add: sz world0_sections(1) world0_entries tabelaGeral_def report_path_def
        report_title_def summary_rule_def summary_heading_def summary_intro_def)
  from world0_key world0_walk world0_dir world0_write world0_unreadable world0_analysis(3)
    x sz r
  show ?thesis
    by blast
qed


lemma analyzeFile_agree:
  assumes "\<not> falsy (GEMINI_API_KEY w1)" "\<not> falsy (GEMINI_API_KEY w2)"
    and "readFileSync w1 f = readFileSync w2 f"
    and "generateContent w1 = generateContent w2"
  shows "snd (analyzeFile w1 f []) = snd (analyzeFile w2 f [])"
  using assms by (simp add: analyzeFile_def Let_def split: sum.splits)

lemma report_agree:
  assumes k: "\<not> falsy (GEMINI_API_KEY w1)" "\<not> falsy (GEMINI_API_KEY w2)"
    and r: "\<forall>f \<in> set fs. readFileSync w1 f = readFileSync w2 f"
    and g: "generateContent w1 = generateContent w2"
  shows "sections w1 fs = sections w2 fs \<and> entries w1 fs = entries w2 fs"
  using r
proof (induction fs)
  case Nil
  show ?case by (simp add: loop_Nil)
next
  case (Cons f fs)
  then have "readFileSync w1 f = readFileSync w2 f" by simp
  from analyzeFile_agree [OF k this g]
  have "sections w1 [f] = sections w2 [f]" "entries w1 [f] = entries w2 [f]"
    by (simp_all add: sections_single entries_single summaryTable_def)
  with Cons show ?case
    by (simp add: loop_Cons [of w1 f fs] loop_Cons [of w2 f fs])
qed


text \<open>
  C8: two runs that discover the same sequence of files, read the same contents from them
  and use the same response function write the same report text, and so the same bytes:
  the key, the rest of the tree and the presence of the report directory do not show.
\<close>

theorem report_deterministic:
  assumes "\<not> falsy (GEMINI_API_KEY w1)" and "\<not> falsy (GEMINI_API_KEY w2)"
    and "snd (walk (lit ''src'') (src w1) [] []) = Inr jsFiles"
    and "snd (walk (lit ''src'') (src w2) [] []) = Inr jsFiles"
    and "\<forall>f \<in> set jsFiles. readFileSync w1 f = readFileSync w2 f"
    and "generateContent w1 = generateContent w2"
    and "existsSync w1 (lit ''reports'') \<or> mkdirSync w1 (lit ''reports'') = None"
    and "existsSync w2 (lit ''reports'') \<or> mkdirSync w2 (lit ''reports'') = None"
  shows "\<exists>d. written (fst (script w1)) = [(report_path, d)] \<and>
             written (fst (script w2)) = [(report_path, d)]"
proof -
  have run: "written (fst (script w)) = [(report_path, report_of w jsFiles)]"
    if k: "\<not> falsy (GEMINI_API_KEY w)"
      and wk: "snd (walk (lit ''src'') (src w) [] []) = Inr jsFiles"
      and dir: "existsSync w (lit ''reports'') \<or> mkdirSync w (lit ''reports'') = None"
    for w
  proof -
    obtain tr0 where w0: "walk (lit ''src'') (src w) [] [] = (tr0, Inr jsFiles)"
      using wk by (cases "walk (lit ''src'') (src w) [] []") simp
    have "written tr0 = []"
      using written_walk(1) [of "lit ''src''" "src w" "[]" "[]"] by (simp add: w0)
    with main_run [OF k w0 dir] show ?thesis
      by (simp add: written_script written_append written_calls)
  qed
  from report_agree [OF assms(1,2,5,6)]
  have "report_of w1 jsFiles = report_of w2 jsFiles"
    by (simp add: report_of_def)
  with run [OF assms(1,3,7)] run [OF assms(2,4,8)] show ?thesis
    by simp
qed

theorem report_deterministic_witness:
  "\<not> falsy (GEMINI_API_KEY world0) \<and> \<not> falsy (GEMINI_API_KEY world1) \<and>
   GEMINI_API_KEY world0 \<noteq> GEMINI_API_KEY world1 \<and> src world0 \<noteq> src world1 \<and>
   snd (walk (lit ''src'') (src world0) [] []) =
     Inr [lit ''src/a.js'', lit ''src/lib/b.js'', lit ''src/z.js''] \<and>
   snd (walk (lit ''src'') (src world1) [] []) =
     Inr [lit ''src/a.js'', lit ''src/lib/b.js'', lit ''src/z.js''] \<and>
   readFileSync world0 (lit ''src/a.js'') = readFileSync world1 (lit ''src/a.js'') \<and>
   readFileSync world0 (lit ''src/lib/b.js'') = readFileSync world1 (lit ''src/lib/b.js'') \<and>
   readFileSync world0 (lit ''src/z.js'') = readFileSync world1 (lit ''src/z.js'') \<and>
   generateContent world0 = generateContent world1 \<and>
   (\<exists>d. written (fst (script world0)) = [(report_path, d)] \<and>
        written (fst (script world1)) = [(report_path, d)])"
proof -
  let ?fs = "[lit ''src/a.js'', lit ''src/lib/b.js'', lit ''src/z.js'']"
  have w0: "snd (walk (lit ''src'') (src world0) [] []) = Inr ?fs"
    using world0_walk by simp
  have k1: "\<not> falsy (GEMINI_API_KEY world1)"
    by (simp add: world1_def falsy_def lit_def)
  have r: "\<forall>f \<in> set ?fs. readFileSync world0 f = readFileSync world1 f"
    by (simp add: world1_def)
  have g: "generateContent world0 = generateContent world1"
    by (simp add: world1_def)
  have d1: "existsSync world1 (lit ''reports'') \<or> mkdirSync world1 (lit ''reports'') = None"
    by (simp add: world1_def)
  have ne: "GEMINI_API_KEY world0 \<noteq> GEMINI_API_KEY world1" "src world0 \<noteq> src world1"
    by (simp_all add: world1_def world0_def tree0_def tree0_files_def lit_def)
  have r3: "readFileSync world0 (lit ''src/a.js'') = readFileSync world1 (lit ''src/a.js'')"
    "readFileSync world0 (lit ''src/lib/b.js'') = readFileSync world1 (lit ''src/lib/b.js'')"
    "readFileSync world0 (lit ''src/z.js'') = readFileSync world1 (lit ''src/z.js'')"
    by (simp_all add: world1_def)
  show ?thesis
    using report_deterministic [OF world0_key k1 w0 world1_walk r g world0_dir d1]
      world0_key k1 w0 world1_walk r3 g ne
    by blast
qed

text \<open>
  C1: in \<open>world_no_text\<close> one file is discovered and the response to its review has no
  text.  The run completes, and its report holds two sections for that file: one with the
  word \<open>undefined\<close> and one with the message of the \<open>TypeError\<close> that \<open>indexOf\<close> raises.
\<close>

theorem response_without_text_two_sections:
  "snd (walk (lit ''src'') (src world_no_text) [] []) = Inr [lit ''src/a.js''] \<and>
   snd (script world_no_text) = 0 \<and>
   written (fst (script world_no_text)) =
     [(report_path,
       report_title @
       lit ''## Arquivo: src/a.js'' @ [0x0A, 0x0A] @ lit ''undefined'' @ [0x0A, 0x0A] @
       lit ''## Arquivo: src/a.js'' @ [0x0A, 0x0A] @ lit ''**Erro ao analisar**: '' @
         msg_TypeError @ [0x0A, 0x0A] @
       summary_rule @ summary_heading @ summary_placeholder)]"
proof -
  have k: "\<not> falsy (GEMINI_API_KEY world_no_text)"
    by (simp add: world_no_text_def world0_def falsy_def lit_def)
  have w: "snd (walk (lit ''src'') (src world_no_text) [] []) = Inr [lit ''src/a.js'']"
    by (simp add: world_no_text_def lit_def path_join_def endsWith_def Let_def)
  have d: "existsSync world_no_text (lit ''reports'') \<or>
      mkdirSync world_no_text (lit ''reports'') = None"
    by (simp add: world_no_text_def world0_def)
  have wr: "writeFileSync world_no_text report_path x = None" for x
    by (simp add: world_no_text_def world0_def)
  have a: "snd (analyzeFile world_no_text (lit ''src/a.js'') []) = Inr None"
    by (simp add: analyzeFile_def Let_def world_no_text_def world0_def falsy_def)
      (simp add: lit_def)
  have s: "sections world_no_text [lit ''src/a.js''] =
      lit ''## Arquivo: src/a.js'' @ [0x0A, 0x0A] @ lit ''undefined'' @ [0x0A, 0x0A] @
      lit ''## Arquivo: src/a.js'' @ [0x0A, 0x0A] @ lit ''**Erro ao analisar**: '' @
         msg_TypeError @ [0x0A, 0x0A]"
    by (simp add: sections_single a success_section_def error_section_def section_head_def
        toString_def)
      (simp add: lit_def)
  have e: "entries world_no_text [lit ''src/a.js''] = []"
    by (simp add: entries_single summaryTable_def a)
  from run_completes [OF k w d wr] w s e show ?thesis
    by (simp add: report_of_def tabelaGeral_def)
qed

end
